theory Spec2Isabelle
  imports
    Main
    "HOL-Library.Word"
    "HOL-Library.FSet"
    "HOL-Library.Multiset"
    "HOL-Library.Char_ord"
    "HOL-Library.List_Lexorder"
begin

text \<open>
  A model of the academic records registry of \<open>College.cpp\<close>: the classes \<open>Student\<close>,
  \<open>Teacher\<close>, \<open>Course\<close>, \<open>Observable\<close> and \<open>School\<close>, with the enrollment protocol, the
  score updates and the ranking of students. A member function that changes its object
  takes the object and returns the changed one, together with what the call returns and
  the trace of what it writes and whom it notifies. Every operation of \<open>School\<close> and of
  \<open>Observable\<close> runs under a lock from its first statement to its last, so a call is one
  step here. File reading, report formatting and the visitor are not modelled.
\<close>

section \<open>Values of the C++ scalar types\<close>

text \<open>
  \<open>int\<close> is a 32-bit two's complement integer (a word read with \<^const>\<open>sint\<close>) and
  \<open>size_t\<close> a 64-bit unsigned one (the LP64 data model). A comparison between the two
  converts the \<open>int\<close> operand to \<open>size_t\<close>, keeping its value modulo \<open>2 ^ 64\<close> (sign
  extension); an assignment of a \<open>size_t\<close> to an \<open>int\<close> keeps the low 32 bits.
\<close>

type_synonym cint = "32 word"
type_synonym size_t = "64 word"

definition int_to_size_t :: "cint \<Rightarrow> size_t" where
  "int_to_size_t i = scast i"


text \<open>
  A \<open>float\<close> is a finite number, an infinity or a NaN. Every finite \<open>float\<close> is a
  rational number; the two signed zeros compare equal and are one value here. The
  comparisons below are the IEEE 754 ones the operators \<open><\<close> and \<open>>\<close> of the source
  compute: every comparison with a NaN is false.
\<close>

datatype cfloat = Finite rat | PosInf | NegInf | NaN

fun flt :: "cfloat \<Rightarrow> cfloat \<Rightarrow> bool" where
  "flt NaN _ = False"
| "flt _ NaN = False"
| "flt (Finite a) (Finite b) = (a < b)"
| "flt (Finite a) PosInf = True"
| "flt (Finite a) NegInf = False"
| "flt PosInf _ = False"
| "flt NegInf NegInf = False"
| "flt NegInf _ = True"

definition fgt :: "cfloat \<Rightarrow> cfloat \<Rightarrow> bool" where
  "fgt a b = flt b a"

text \<open>
  Addition and division of \<open>float\<close>s round, and the conversion of a \<open>size_t\<close> to
  \<open>float\<close> may round too. The rounding is done by the hardware, not by the program, so
  the three operations are a parameter of every function that computes with scores.
\<close>

record fpu =
  fadd :: "cfloat \<Rightarrow> cfloat \<Rightarrow> cfloat"
  fdiv :: "cfloat \<Rightarrow> cfloat \<Rightarrow> cfloat"
  size_to_float :: "nat \<Rightarrow> cfloat"

text \<open>
  On the platforms the program is built for, \<open>float\<close> is the IEEE 754 binary32 format
  and the operations round to nearest, ties to even. A finite \<open>float\<close> other than zero
  is \<open>m * 2 ^ (e - 23)\<close> with an integer \<open>m\<close> below \<open>2 ^ 24\<close> in absolute value and
  \<open>- 126 \<le> e \<le> 127\<close>. \<open>exponent a\<close> is the exponent of the binade of the positive
  number \<open>a\<close> (\<open>- 126\<close> for the subnormal range), \<open>round32\<close> rounds a rational number to
  the nearest \<open>float\<close>, and a result of \<open>2 ^ 128\<close> or more in absolute value is an
  infinity.
\<close>

definition exponent :: "rat \<Rightarrow> int" where
  "exponent a = (case find (\<lambda>e. 2 powi e \<le> a) (rev [- 126..128]) of Some e \<Rightarrow> e | None \<Rightarrow> - 126)"

definition round_half_even :: "rat \<Rightarrow> int" where
  "round_half_even m =
     (let f = \<lfloor>m\<rfloor>; r = m - of_int f
      in if r < 1 / 2 then f else if 1 / 2 < r then f + 1 else if even f then f else f + 1)"

definition round32 :: "rat \<Rightarrow> cfloat" where
  "round32 q =
     (if q = 0 then Finite 0
      else let a = \<bar>q\<bar>;
               ulp = 2 powi (exponent a - 23);
               v = of_int (round_half_even (a / ulp)) * ulp
           in if 2 powi 128 \<le> v then (if 0 < q then PosInf else NegInf)
              else Finite (if 0 < q then v else - v))"

fun ieee_add :: "cfloat \<Rightarrow> cfloat \<Rightarrow> cfloat" where
  "ieee_add NaN _ = NaN"
| "ieee_add _ NaN = NaN"
| "ieee_add (Finite a) (Finite b) = round32 (a + b)"
| "ieee_add PosInf NegInf = NaN"
| "ieee_add NegInf PosInf = NaN"
| "ieee_add PosInf _ = PosInf"
| "ieee_add _ PosInf = PosInf"
| "ieee_add NegInf _ = NegInf"
| "ieee_add _ NegInf = NegInf"

fun ieee_div :: "cfloat \<Rightarrow> cfloat \<Rightarrow> cfloat" where
  "ieee_div NaN _ = NaN"
| "ieee_div _ NaN = NaN"
| "ieee_div (Finite a) (Finite b) =
     (if b = 0 then (if a = 0 then NaN else if 0 < a then PosInf else NegInf)
      else round32 (a / b))"
| "ieee_div (Finite a) _ = Finite 0"
| "ieee_div PosInf (Finite b) = (if 0 \<le> b then PosInf else NegInf)"
| "ieee_div NegInf (Finite b) = (if 0 \<le> b then NegInf else PosInf)"
| "ieee_div _ _ = NaN"

definition ieee_fpu :: fpu where
  "ieee_fpu = \<lparr>fadd = ieee_add, fdiv = ieee_div, size_to_float = (\<lambda>n. round32 (of_nat n))\<rparr>"

section \<open>The standard containers\<close>

text \<open>
  A \<open>std::map<string, V>\<close> is a list of key-value pairs in ascending key order, which is
  the order its iteration visits them in. \<open>find\<close> is \<^const>\<open>map_of\<close>, and an
  assignment through \<open>operator[]\<close> replaces the value of a key that is present and
  inserts an absent key at its place in the order.
\<close>

type_synonym 'v std_map = "(string \<times> 'v) list"

fun map_assign :: "string \<Rightarrow> 'v \<Rightarrow> 'v std_map \<Rightarrow> 'v std_map" where
  "map_assign k v [] = [(k, v)]"
| "map_assign k v ((k', v') # m) =
     (if k < k' then (k, v) # (k', v') # m
      else if k = k' then (k, v) # m
      else (k', v') # map_assign k v m)"

text \<open>
  \<open>std::find_if\<close> over a vector is \<^const>\<open>find\<close>: the first element that satisfies the
  predicate. The registry's vectors hold shared pointers, and the code changes the object
  behind the pointer it found. Every slot of a vector is taken to point to an object of
  its own, so the change is a change of the first element that satisfies the predicate.
\<close>

fun update_first :: "('a \<Rightarrow> bool) \<Rightarrow> 'a \<Rightarrow> 'a list \<Rightarrow> 'a list" where
  "update_first P y [] = []"
| "update_first P y (x # xs) = (if P x then y # xs else x # update_first P y xs)"



section \<open>What a call does besides changing the state\<close>

text \<open>
  A call leaves a trace: the calls of \<open>Observable::notify\<close>, the calls of
  \<open>Observer::update\<close> that each of them makes, and the lines written to \<open>cerr\<close> (the
  text without the colour codes). An observer is the address held in the bus.
\<close>

type_synonym observer = nat

datatype effect =
    Notify string string "cfloat option" cfloat
  | Update observer string string "cfloat option" cfloat
  | Cerr string

fun is_Notify :: "effect \<Rightarrow> bool" where
  "is_Notify (Notify _ _ _ _) = True"
| "is_Notify _ = False"

definition notify :: "observer list \<Rightarrow> string \<Rightarrow> string \<Rightarrow> cfloat option \<Rightarrow> cfloat \<Rightarrow> effect list" where
  "notify observers student_id course_id old_wam new_wam =
     Notify student_id course_id old_wam new_wam
       # map (\<lambda>ob. Update ob student_id course_id old_wam new_wam) observers"

section \<open>Domain model\<close>

datatype GradeLevel = FRESHMAN | SOPHOMORE | JUNIOR | SENIOR

record address =
  street :: string
  city :: string
  state :: string
  zip_code :: string

text \<open>
  \<open>Person\<close> is the base class of \<open>Student\<close> and \<open>Teacher\<close>; its fields \<open>id\<close> and
  \<open>name\<close> are \<open>pid\<close> and \<open>pname\<close> here. \<open>created_at\<close> is the reading of the system
  clock at construction.
\<close>

record person =
  pid :: string
  pname :: string
  email :: string
  addr :: address
  created_at :: nat

record student = person +
  grade_level :: GradeLevel
  courses :: "cfloat option std_map"
  observers :: "observer list"

record teacher = person +
  department :: string
  specialization :: string
  assigned_courses :: "string fset"

text \<open>The fields \<open>id\<close> and \<open>name\<close> of \<open>Course\<close> are \<open>cid\<close> and \<open>cname\<close>.\<close>

record course =
  cid :: string
  cname :: string
  credits :: cint
  capacity :: cint
  enrolled_students :: "string fset"
  prerequisites :: "string fset"

text \<open>The fields \<open>name\<close> and \<open>courses\<close> of \<open>School\<close> are \<open>school_name\<close> and \<open>catalog\<close>.\<close>

record school =
  school_name :: string
  students :: "student list"
  teachers :: "teacher list"
  catalog :: "course list"

subsection \<open>Constructors\<close>

definition Student :: "nat \<Rightarrow> string \<Rightarrow> string \<Rightarrow> string \<Rightarrow> address \<Rightarrow> GradeLevel \<Rightarrow> student" where
  "Student now i n e a g =
     \<lparr>pid = i, pname = n, email = e, addr = a, created_at = now,
      grade_level = g, courses = [], observers = []\<rparr>"

definition Teacher :: "nat \<Rightarrow> string \<Rightarrow> string \<Rightarrow> string \<Rightarrow> address \<Rightarrow> string \<Rightarrow> string \<Rightarrow> teacher" where
  "Teacher now i n e a d sp =
     \<lparr>pid = i, pname = n, email = e, addr = a, created_at = now,
      department = d, specialization = sp, assigned_courses = {||}\<rparr>"

definition Course :: "string \<Rightarrow> string \<Rightarrow> cint \<Rightarrow> cint \<Rightarrow> course" where
  "Course i n cr cap =
     \<lparr>cid = i, cname = n, credits = cr, capacity = cap,
      enrolled_students = {||}, prerequisites = {||}\<rparr>"

definition School :: "string \<Rightarrow> school" where
  "School n = \<lparr>school_name = n, students = [], teachers = [], catalog = []\<rparr>"

subsection \<open>Student\<close>

definition addObserver :: "observer \<Rightarrow> student \<Rightarrow> student" where
  "addObserver ob s = s\<lparr>observers := observers s @ [ob]\<rparr>"

definition enroll :: "string \<Rightarrow> student \<Rightarrow> student \<times> effect list" where
  "enroll course_id s =
     (if map_of (courses s) course_id = None
      then (s\<lparr>courses := map_assign course_id None (courses s)\<rparr>,
            notify (observers s) (pid s) course_id None (Finite 0))
      else (s, []))"

definition updateWAM :: "string \<Rightarrow> cfloat \<Rightarrow> student \<Rightarrow> student \<times> effect list" where
  "updateWAM course_id wam s =
     (if flt wam (Finite 0) \<or> fgt wam (Finite 100)
      then (s, [Cerr ''Invalid WAM score. Must be between 0 and 100.''])
      else (case map_of (courses s) course_id of
              Some old_wam \<Rightarrow>
                (s\<lparr>courses := map_assign course_id (Some wam) (courses s)\<rparr>,
                 notify (observers s) (pid s) course_id old_wam wam)
            | None \<Rightarrow> (s, [])))"

definition overallWAM :: "fpu \<Rightarrow> student \<Rightarrow> cfloat" where
  "overallWAM u s =
     (let wams = List.map_filter snd (courses s)
      in if wams = [] then Finite 0
         else fdiv u (foldl (fadd u) (Finite 0) wams) (size_to_float u (length wams)))"

subsection \<open>Course\<close>

definition enrollStudent :: "string \<Rightarrow> course \<Rightarrow> bool \<times> course" where
  "enrollStudent student_id c =
     (if (of_nat (fcard (enrolled_students c)) :: size_t) < int_to_size_t (capacity c)
      then (True, c\<lparr>enrolled_students := finsert student_id (enrolled_students c)\<rparr>)
      else (False, c))"

subsection \<open>School\<close>

definition addStudent :: "student \<Rightarrow> school \<Rightarrow> school" where
  "addStudent s sch = sch\<lparr>students := students sch @ [s]\<rparr>"

definition addTeacher :: "teacher \<Rightarrow> school \<Rightarrow> school" where
  "addTeacher t sch = sch\<lparr>teachers := teachers sch @ [t]\<rparr>"

definition addCourse :: "course \<Rightarrow> school \<Rightarrow> school" where
  "addCourse c sch = sch\<lparr>catalog := catalog sch @ [c]\<rparr>"

definition enrollStudentInCourse :: "string \<Rightarrow> string \<Rightarrow> school \<Rightarrow> bool \<times> school \<times> effect list" where
  "enrollStudentInCourse student_id course_id sch =
     (case find (\<lambda>s. pid s = student_id) (students sch) of
        None \<Rightarrow> (False, sch, [Cerr ''Student or course not found!''])
      | Some s \<Rightarrow>
          (case find (\<lambda>c. cid c = course_id) (catalog sch) of
             None \<Rightarrow> (False, sch, [Cerr ''Student or course not found!''])
           | Some c \<Rightarrow>
               (case enrollStudent student_id c of
                  (True, c') \<Rightarrow>
                    (case enroll course_id s of
                       (s', tr) \<Rightarrow>
                         (True,
                          sch\<lparr>students := update_first (\<lambda>s. pid s = student_id) s' (students sch),
                              catalog := update_first (\<lambda>c. cid c = course_id) c' (catalog sch)\<rparr>,
                          tr))
                | (False, c') \<Rightarrow>
                    (False, sch, [Cerr (''Course '' @ course_id @ '' is full!'')]))))"


section \<open>Sequences of registry operations\<close>

text \<open>
  The loader constructs an entity and hands it to the registry, so a registration is the
  constructor followed by the \<open>add\<close> operation. A run starts from the empty registry.
\<close>

datatype registry_op =
    RegisterStudent nat string string string address GradeLevel
  | RegisterTeacher nat string string string address string string
  | RegisterCourse string string cint cint
  | Enroll string string

fun apply_op :: "school \<Rightarrow> registry_op \<Rightarrow> school" where
  "apply_op sch (RegisterStudent now i n e a g) = addStudent (Student now i n e a g) sch"
| "apply_op sch (RegisterTeacher now i n e a d sp) = addTeacher (Teacher now i n e a d sp) sch"
| "apply_op sch (RegisterCourse i n cr cap) = addCourse (Course i n cr cap) sch"
| "apply_op sch (Enroll student_id course_id) = fst (snd (enrollStudentInCourse student_id course_id sch))"

definition run :: "string \<Rightarrow> registry_op list \<Rightarrow> school" where
  "run n ops = foldl apply_op (School n) ops"

text \<open>
  The loop of \<open>main\<close> over its list of enrollments calls \<open>enrollStudentInCourse\<close> for
  each pair in turn. \<open>main\<close> drops the results; they are kept here.
\<close>

fun enrollments_loop :: "(string \<times> string) list \<Rightarrow> school \<Rightarrow> bool list \<times> school" where
  "enrollments_loop [] sch = ([], sch)"
| "enrollments_loop ((student_id, course_id) # es) sch =
     (case enrollStudentInCourse student_id course_id sch of
        (ok, sch', tr) \<Rightarrow>
          (case enrollments_loop es sch' of (oks, sch'') \<Rightarrow> (ok # oks, sch'')))"

section \<open>Predicates of the specification\<close>

text \<open>
  The specification's score type: a real number in the closed interval \<open>[0, 100]\<close>.
  This predicate follows the specification, not the source; the source's check is the
  first condition of \<^const>\<open>updateWAM\<close>.
\<close>

fun in_score_range :: "cfloat \<Rightarrow> bool" where
  "in_score_range (Finite q) = (0 \<le> q \<and> q \<le> 100)"
| "in_score_range _ = False"

text \<open>
  The invariants of the specification's data model. \<open>consistent\<close> is mutual
  consistency: a course id is a key of a student's enrollment map exactly when the
  student's id is in the course's enrolled set. \<open>unique_ids\<close> is uniqueness of ids
  within a kind. \<open>within_capacity\<close> bounds the enrolled set of every course whose capacity
  is not negative. \<open>links_resolve\<close> is not in the specification: every id in an enrolled
  set or an enrollment map is the id of a registered entity.
\<close>

definition consistent :: "school \<Rightarrow> bool" where
  "consistent sch \<longleftrightarrow>
     (\<forall>s\<in>set (students sch). \<forall>c\<in>set (catalog sch).
        (cid c \<in> fst ` set (courses s)) = (pid s |\<in>| enrolled_students c))"

definition unique_ids :: "school \<Rightarrow> bool" where
  "unique_ids sch \<longleftrightarrow> distinct (map pid (students sch)) \<and> distinct (map cid (catalog sch))"

definition links_resolve :: "school \<Rightarrow> bool" where
  "links_resolve sch \<longleftrightarrow>
     (\<forall>c\<in>set (catalog sch). \<forall>x\<in>fset (enrolled_students c). x \<in> pid ` set (students sch))
     \<and> (\<forall>s\<in>set (students sch). \<forall>k\<in>fst ` set (courses s). k \<in> cid ` set (catalog sch))"

definition registry_inv :: "school \<Rightarrow> bool" where
  "registry_inv sch \<longleftrightarrow> links_resolve sch \<and> (unique_ids sch \<longrightarrow> consistent sch)"

definition within_capacity :: "school \<Rightarrow> bool" where
  "within_capacity sch \<longleftrightarrow>
     (\<forall>c\<in>set (catalog sch). 0 \<le> sint (capacity c) \<longrightarrow>
        int (fcard (enrolled_students c)) \<le> sint (capacity c))"

text \<open>
  \<open>exact_sums acc qs\<close>: adding the numbers \<open>qs\<close> one after the other to \<open>acc\<close> in
  \<open>float\<close> arithmetic never rounds, every partial sum being a \<open>float\<close>.
\<close>

fun exact_sums :: "rat \<Rightarrow> rat list \<Rightarrow> bool" where
  "exact_sums acc [] = True"
| "exact_sums acc (q # qs) = (round32 (acc + q) = Finite (acc + q) \<and> exact_sums (acc + q) qs)"

section \<open>Example inputs\<close>

text \<open>Entities, operation sequences and registries that the examples run the code on.\<close>

definition addr0 :: address where
  "addr0 = \<lparr>street = ''1 Main St'', city = ''Rajpura'', state = ''PB'', zip_code = ''140401''\<rparr>"

definition student1 :: student where
  "student1 = fst (updateWAM ''CS101'' (Finite 80)
     (fst (enroll ''CS101'' (addObserver 7 (Student 0 ''S001'' ''Asha'' ''a@x.org'' addr0 FRESHMAN)))))"

definition registrations1 :: "registry_op list" where
  "registrations1 =
     [RegisterStudent 0 ''S001'' ''Asha'' ''a@x.org'' addr0 FRESHMAN,
      RegisterStudent 1 ''S002'' ''Bela'' ''b@x.org'' addr0 SENIOR,
      RegisterCourse ''CS101'' ''Programming Paradigms'' 4 1,
      RegisterCourse ''CS201'' ''Network and Communication'' 4 30]"

definition school1 :: school where
  "school1 = run ''U'' registrations1"

definition school2 :: school where
  "school2 = fst (snd (enrollStudentInCourse ''S001'' ''CS201'' school1))"

definition school3 :: school where
  "school3 = fst (snd (enrollStudentInCourse ''S001'' ''CS101'' school1))"

text \<open>Two students with the id \<open>S001\<close>, and a course with the capacity \<open>-1\<close>.\<close>

definition duplicate_ops :: "registry_op list" where
  "duplicate_ops =
     [RegisterStudent 0 ''S001'' ''Asha'' ''a@x.org'' addr0 FRESHMAN,
      RegisterStudent 1 ''S001'' ''Bela'' ''b@x.org'' addr0 SENIOR,
      RegisterCourse ''CS201'' ''Network and Communication'' 4 30,
      Enroll ''S001'' ''CS201'']"

definition negative_ops :: "registry_op list" where
  "negative_ops =
     [RegisterStudent 0 ''S001'' ''Asha'' ''a@x.org'' addr0 FRESHMAN,
      RegisterCourse ''PD101'' ''Professional Development'' 3 (- 1),
      Enroll ''S001'' ''PD101'']"






text \<open>
  The registrations of \<open>duplicate_ops\<close> without the enrollment, and students with
  given scores: each course is enrolled in and then graded.
\<close>

definition duplicate_registrations :: "registry_op list" where
  "duplicate_registrations =
     [RegisterStudent 0 ''S001'' ''Asha'' ''a@x.org'' addr0 FRESHMAN,
      RegisterStudent 1 ''S001'' ''Bela'' ''b@x.org'' addr0 SENIOR,
      RegisterCourse ''CS201'' ''Network and Communication'' 4 30]"

definition graded :: "string \<Rightarrow> string \<Rightarrow> (string \<times> cfloat) list \<Rightarrow> student" where
  "graded i n ws = foldl (\<lambda>s (c, w). fst (updateWAM c w (fst (enroll c s))))
     (Student 0 i n ''x@x.org'' addr0 FRESHMAN) ws"

definition student3 :: student where
  "student3 = graded ''S003'' ''Chen''
     [(''CS101'', Finite 70), (''CS201'', Finite 80), (''CS301'', Finite 85)]"

definition student4 :: student where
  "student4 = graded ''S004'' ''Dana''
     [(''CS101'', Finite (262143 / 262144)), (''CS201'', Finite 64),
      (''CS301'', Finite (262143 / 262144))]"

definition student5 :: student where
  "student5 = graded ''S005'' ''Emil'' [(''CS101'', Finite 80), (''CS201'', Finite 90)]"

section \<open>Containers and integer conversions\<close>

lemma map_of_map_assign: "map_of (map_assign k v m) = (map_of m)(k \<mapsto> v)"
  by (induction m) (auto simp: fun_eq_iff)

lemma keys_map_assign: "fst ` set (map_assign k v m) = insert k (fst ` set m)"
  by (simp add: map_of_map_assign flip: dom_map_of_conv_image_fst)

lemma find_None_conv: "(find P xs = None) = (\<forall>x\<in>set xs. \<not> P x)"
  by (induction xs) auto

lemma find_Some_holds: "find P xs = Some x \<Longrightarrow> P x \<and> x \<in> set xs"
  by (induction xs) (auto split: if_splits)

lemma find_update_first:
  "P y \<Longrightarrow> find P (update_first P y xs) = (if find P xs = None then None else Some y)"
  by (induction xs) auto

lemma map_update_first:
  "find P xs = Some x \<Longrightarrow> f y = f x \<Longrightarrow> map f (update_first P y xs) = map f xs"
  by (induction xs) (auto split: if_splits)

lemma set_update_first_subset: "set (update_first P y xs) \<subseteq> insert y (set xs)"
  by (induction xs) auto

lemma update_first_same: "find P xs = Some x \<Longrightarrow> update_first P x xs = xs"
  by (induction xs) (auto split: if_splits)

text \<open>
  Where the keys are distinct, the element that \<open>update_first\<close> replaces is the only one
  with the key it looks for.
\<close>

lemma update_first_distinct_cases:
  assumes "distinct (map f xs)" and "find (\<lambda>x. f x = k) xs = Some x"
    and "z \<in> set (update_first (\<lambda>x. f x = k) y xs)"
  shows "z = y \<or> (z \<in> set xs \<and> f z \<noteq> k)"
  using assms
proof (induction xs)
  case Nil
  then show ?case by simp
next
  case (Cons a xs)
  show ?case
  proof (cases "f a = k")
    case True
    with Cons.prems show ?thesis by (auto simp: image_iff)
  next
    case False
    with Cons show ?thesis by auto
  qed
qed


lemma foldl_invariant:
  "P a \<Longrightarrow> (\<And>a x. P a \<Longrightarrow> P (f a x)) \<Longrightarrow> P (foldl f a xs)"
  by (induction xs arbitrary: a) simp_all

text \<open>An \<open>int\<close> converted to \<open>size_t\<close>: a negative value becomes a value above \<open>2 ^ 63\<close>.\<close>

lemma sint_cint_bounds: "- (2 ^ 31) \<le> sint (c :: cint) \<and> sint c < 2 ^ 31"
  using sint_ge [of c] sint_lt [of c] by simp

lemma uint_int_to_size_t:
  "uint (int_to_size_t c) = (if 0 \<le> sint c then sint c else 2 ^ 64 + sint c)"
proof -
  have b: "- (2 ^ 31) \<le> sint c" "sint c < 2 ^ 31"
    using sint_cint_bounds [of c] by simp_all
  have "uint (int_to_size_t c) = take_bit 64 (sint c)"
    unfolding int_to_size_t_def scast_eq uint_word_of_int_eq by simp
  also have "\<dots> = sint c mod 2 ^ 64"
    by (rule take_bit_eq_mod)
  also have "\<dots> = (if 0 \<le> sint c then sint c else 2 ^ 64 + sint c)"
  proof (cases "0 \<le> sint c")
    case True
    then show ?thesis using b by simp
  next
    case False
    have "(sint c + 2 ^ 64) mod 2 ^ 64 = sint c + 2 ^ 64"
      using b False by (intro mod_pos_pos_trivial) simp_all
    then show ?thesis using False by (simp add: add.commute)
  qed
  finally show ?thesis .
qed

lemma lt_int_to_size_t:
  "(w < int_to_size_t c) = (uint w < (if 0 \<le> sint c then sint c else 2 ^ 64 + sint c))"
  by (simp add: word_less_def uint_int_to_size_t)

lemma uint_size_of_nat: "n < 2 ^ 64 \<Longrightarrow> uint (of_nat n :: size_t) = int n"
  by (simp add: take_bit_nat_eq_self unsigned_of_nat)

lemma size_lt_capacity:
  "0 \<le> sint c \<Longrightarrow> n < 2 ^ 64 \<Longrightarrow> ((of_nat n :: size_t) < int_to_size_t c) = (int n < sint c)"
  by (simp add: word_less_def uint_int_to_size_t uint_size_of_nat)


section \<open>The example registries, evaluated\<close>

lemma student1_eq:
  "student1 = \<lparr>pid = ''S001'', pname = ''Asha'', email = ''a@x.org'', addr = addr0, created_at = 0,
      grade_level = FRESHMAN, courses = [(''CS101'', Some (Finite 80))], observers = [7]\<rparr>"
  by (simp add: student1_def updateWAM_def enroll_def addObserver_def Student_def fgt_def)

lemma school1_eq:
  "school1 = \<lparr>school_name = ''U'',
      students = [Student 0 ''S001'' ''Asha'' ''a@x.org'' addr0 FRESHMAN,
                  Student 1 ''S002'' ''Bela'' ''b@x.org'' addr0 SENIOR],
      teachers = [],
      catalog = [Course ''CS101'' ''Programming Paradigms'' 4 1,
                 Course ''CS201'' ''Network and Communication'' 4 30]\<rparr>"
  by (simp add: school1_def registrations1_def run_def School_def addStudent_def addCourse_def)

lemma enroll_school1_CS201:
  "enrollStudentInCourse ''S001'' ''CS201'' school1
     = (True, school2, [Notify ''S001'' ''CS201'' None (Finite 0)])"
  by (simp add: school2_def school1_eq enrollStudentInCourse_def enrollStudent_def enroll_def
      notify_def Student_def Course_def lt_int_to_size_t fcard_fempty)

lemma school2_eq:
  "school2 = \<lparr>school_name = ''U'',
      students = [(Student 0 ''S001'' ''Asha'' ''a@x.org'' addr0 FRESHMAN)\<lparr>courses := [(''CS201'', None)]\<rparr>,
                  Student 1 ''S002'' ''Bela'' ''b@x.org'' addr0 SENIOR],
      teachers = [],
      catalog = [Course ''CS101'' ''Programming Paradigms'' 4 1,
                 (Course ''CS201'' ''Network and Communication'' 4 30)\<lparr>enrolled_students := {|''S001''|}\<rparr>]\<rparr>"
  by (simp add: school2_def school1_eq enrollStudentInCourse_def enrollStudent_def enroll_def
      notify_def Student_def Course_def lt_int_to_size_t fcard_fempty)

lemma enroll_school2_CS201:
  "enrollStudentInCourse ''S001'' ''CS201'' school2 = (True, school2, [])"
  by (simp add: school2_eq enrollStudentInCourse_def enrollStudent_def enroll_def
      notify_def Student_def Course_def lt_int_to_size_t fcard_finsert_if fcard_fempty)

lemma school3_eq:
  "school3 = \<lparr>school_name = ''U'',
      students = [(Student 0 ''S001'' ''Asha'' ''a@x.org'' addr0 FRESHMAN)\<lparr>courses := [(''CS101'', None)]\<rparr>,
                  Student 1 ''S002'' ''Bela'' ''b@x.org'' addr0 SENIOR],
      teachers = [],
      catalog = [(Course ''CS101'' ''Programming Paradigms'' 4 1)\<lparr>enrolled_students := {|''S001''|}\<rparr>,
                 Course ''CS201'' ''Network and Communication'' 4 30]\<rparr>"
  by (simp add: school3_def school1_eq enrollStudentInCourse_def enrollStudent_def enroll_def
      notify_def Student_def Course_def lt_int_to_size_t fcard_fempty)

lemma enroll_school1_CS101:
  "enrollStudentInCourse ''S001'' ''CS101'' school1
     = (True, school3, [Notify ''S001'' ''CS101'' None (Finite 0)])"
  by (simp add: school3_eq school1_eq enrollStudentInCourse_def enrollStudent_def enroll_def
      notify_def Student_def Course_def lt_int_to_size_t fcard_fempty)

lemma enroll_school3_CS101:
  "enrollStudentInCourse ''S001'' ''CS101'' school3
     = (False, school3, [Cerr ''Course CS101 is full!''])"
  by (simp add: school3_eq enrollStudentInCourse_def enrollStudent_def enroll_def
      notify_def Student_def Course_def lt_int_to_size_t fcard_finsert_if fcard_fempty)

lemma run_snoc: "run n (ops @ [x]) = apply_op (run n ops) x"
  by (simp add: run_def)

lemma run_enroll_school1:
  "run ''U'' (registrations1 @ [Enroll ''S001'' ''CS201'']) = school2"
  by (simp add: run_snoc school2_def flip: school1_def)

lemma run_duplicate_ops:
  "run ''U'' duplicate_ops = \<lparr>school_name = ''U'',
      students = [(Student 0 ''S001'' ''Asha'' ''a@x.org'' addr0 FRESHMAN)\<lparr>courses := [(''CS201'', None)]\<rparr>,
                  Student 1 ''S001'' ''Bela'' ''b@x.org'' addr0 SENIOR],
      teachers = [],
      catalog = [(Course ''CS201'' ''Network and Communication'' 4 30)\<lparr>enrolled_students := {|''S001''|}\<rparr>]\<rparr>"
  by (simp add: duplicate_ops_def run_def School_def addStudent_def addCourse_def
      enrollStudentInCourse_def enrollStudent_def enroll_def
      notify_def Student_def Course_def lt_int_to_size_t fcard_fempty)

lemma run_negative_ops:
  "run ''U'' negative_ops = \<lparr>school_name = ''U'',
      students = [(Student 0 ''S001'' ''Asha'' ''a@x.org'' addr0 FRESHMAN)\<lparr>courses := [(''PD101'', None)]\<rparr>],
      teachers = [],
      catalog = [(Course ''PD101'' ''Professional Development'' 3 (- 1))\<lparr>enrolled_students := {|''S001''|}\<rparr>]\<rparr>"
  by (simp add: negative_ops_def run_def School_def addStudent_def addCourse_def
      enrollStudentInCourse_def enrollStudent_def enroll_def
      notify_def Student_def Course_def lt_int_to_size_t fcard_fempty)




lemma run_duplicate_registrations:
  "run ''U'' duplicate_registrations = \<lparr>school_name = ''U'',
      students = [Student 0 ''S001'' ''Asha'' ''a@x.org'' addr0 FRESHMAN,
                  Student 1 ''S001'' ''Bela'' ''b@x.org'' addr0 SENIOR],
      teachers = [],
      catalog = [Course ''CS201'' ''Network and Communication'' 4 30]\<rparr>"
  by (simp add: duplicate_registrations_def run_def School_def addStudent_def addCourse_def)

lemma enroll_duplicate_registrations:
  "enrollStudentInCourse ''S001'' ''CS201'' (run ''U'' duplicate_registrations)
     = (True, run ''U'' duplicate_ops, [Notify ''S001'' ''CS201'' None (Finite 0)])"
  by (simp add: run_duplicate_ops run_duplicate_registrations)
     (simp add: enrollStudentInCourse_def enrollStudent_def enroll_def
      notify_def Student_def Course_def lt_int_to_size_t fcard_fempty)

lemma scores_student3: "List.map_filter snd (courses student3) = [Finite 70, Finite 80, Finite 85]"
  by code_simp

lemma scores_student4:
  "List.map_filter snd (courses student4)
     = [Finite (262143 / 262144), Finite 64, Finite (262143 / 262144)]"
  by code_simp

lemma scores_student5: "List.map_filter snd (courses student5) = map Finite [80, 90]"
  by code_simp

lemma overallWAM_student3: "overallWAM ieee_fpu student3 = Finite (10267307 / 131072)"
  by code_simp

lemma overallWAM_student4: "overallWAM ieee_fpu student4 = Finite 22"
  by code_simp

lemma round32_mean_student4:
  "round32 ((262143 / 262144 + 64 + 262143 / 262144) / 3) = Finite (11534335 / 524288)"
  by code_simp

lemma exact_sums_student5: "exact_sums 0 [80, 90]"
  by code_simp

lemma round32_mean_student5:
  "round32 (sum_list [80, 90] / of_nat (length [80, 90 :: rat])) = Finite 85"
  by code_simp

section \<open>Registration\<close>

text \<open>
  Claim C4, as the code has it. Each of \<open>addStudent\<close>, \<open>addTeacher\<close> and
  \<open>addCourse\<close> appends the entity it is given to its collection and leaves the other two
  collections as they were, whatever ids are already present: there is no check for a
  duplicate id and no failure.
\<close>

theorem register_appends:
  "students (addStudent s sch) = students sch @ [s]
   \<and> teachers (addStudent s sch) = teachers sch \<and> catalog (addStudent s sch) = catalog sch
   \<and> teachers (addTeacher t sch) = teachers sch @ [t]
   \<and> students (addTeacher t sch) = students sch \<and> catalog (addTeacher t sch) = catalog sch
   \<and> catalog (addCourse c sch) = catalog sch @ [c]
   \<and> students (addCourse c sch) = students sch \<and> teachers (addCourse c sch) = teachers sch"
  by (simp add: addStudent_def addTeacher_def addCourse_def)

text \<open>
  Claim C4 as stated fails: registering a second student with the id \<open>S001\<close> does not
  leave the collection unchanged, it holds both students afterwards.
\<close>

theorem register_duplicate_counterexample:
  "map pid (students (run ''U'' [RegisterStudent 0 ''S001'' ''Asha'' ''a@x.org'' addr0 FRESHMAN]))
     = [''S001'']
   \<and> map pid (students (run ''U'' [RegisterStudent 0 ''S001'' ''Asha'' ''a@x.org'' addr0 FRESHMAN,
        RegisterStudent 1 ''S001'' ''Bela'' ''b@x.org'' addr0 SENIOR]))
     = [''S001'', ''S001'']"
  by (simp add: run_def School_def addStudent_def Student_def)

section \<open>Enrollment\<close>

subsection \<open>The two sides of an enrollment\<close>

lemma keys_enroll: "fst ` set (courses (fst (enroll k s))) = insert k (fst ` set (courses s))"
  by (auto simp: enroll_def keys_map_assign map_of_eq_None_iff)

lemma pid_enroll: "pid (fst (enroll k s)) = pid s"
  by (simp add: enroll_def)

lemma enroll_idem: "k \<in> fst ` set (courses s) \<Longrightarrow> enroll k s = (s, [])"
  by (simp add: enroll_def map_of_eq_None_iff)

lemma enroll_new:
  "k \<notin> fst ` set (courses s) \<Longrightarrow>
     enroll k s = (s\<lparr>courses := map_assign k None (courses s)\<rparr>,
                   notify (observers s) (pid s) k None (Finite 0))"
  by (simp add: enroll_def map_of_eq_None_iff)

lemma filter_notify:
  "filter is_Notify (notify obs sid k old new) = [Notify sid k old new]"
  by (induction obs) (simp_all add: notify_def)

lemma free_seat_test:
  assumes "int (fcard (enrolled_students c)) < sint (capacity c)"
  shows "(of_nat (fcard (enrolled_students c)) :: size_t) < int_to_size_t (capacity c)"
proof -
  have "sint (capacity c) < 2 ^ 31"
    using sint_cint_bounds [of "capacity c"] by simp
  with assms have "int (fcard (enrolled_students c)) < 2 ^ 31"
    by linarith
  then have "fcard (enrolled_students c) < 2 ^ 64"
    by simp
  moreover from assms have "0 \<le> sint (capacity c)"
    by linarith
  ultimately show ?thesis
    using assms by (simp add: size_lt_capacity)
qed

lemma full_course_test:
  assumes "int (fcard (enrolled_students c)) = sint (capacity c)"
  shows "\<not> (of_nat (fcard (enrolled_students c)) :: size_t) < int_to_size_t (capacity c)"
proof -
  have "sint (capacity c) < 2 ^ 31"
    using sint_cint_bounds [of "capacity c"] by simp
  with assms have "int (fcard (enrolled_students c)) < 2 ^ 31"
    by linarith
  then have "fcard (enrolled_students c) < 2 ^ 64"
    by simp
  moreover from assms have "0 \<le> sint (capacity c)"
    by linarith
  ultimately show ?thesis
    using assms by (simp add: size_lt_capacity)
qed

subsection \<open>The results of \<open>enrollStudentInCourse\<close>\<close>

lemma enroll_resolved:
  assumes "find (\<lambda>s. pid s = sid) (students sch) = Some s"
    and "find (\<lambda>c. cid c = k) (catalog sch) = Some c"
  shows "enrollStudentInCourse sid k sch =
     (if (of_nat (fcard (enrolled_students c)) :: size_t) < int_to_size_t (capacity c)
      then (True,
            sch\<lparr>students := update_first (\<lambda>s. pid s = sid) (fst (enroll k s)) (students sch),
                catalog := update_first (\<lambda>c. cid c = k)
                  (c\<lparr>enrolled_students := finsert sid (enrolled_students c)\<rparr>) (catalog sch)\<rparr>,
            snd (enroll k s))
      else (False, sch, [Cerr (''Course '' @ k @ '' is full!'')]))"
  using assms
  by (simp add: enrollStudentInCourse_def enrollStudent_def split: prod.splits)

lemma enroll_True_D:
  assumes "enrollStudentInCourse sid k sch = (True, sch', tr)"
  shows "\<exists>s c. find (\<lambda>s. pid s = sid) (students sch) = Some s
      \<and> find (\<lambda>c. cid c = k) (catalog sch) = Some c
      \<and> (of_nat (fcard (enrolled_students c)) :: size_t) < int_to_size_t (capacity c)
      \<and> sch' = sch\<lparr>students := update_first (\<lambda>s. pid s = sid) (fst (enroll k s)) (students sch),
                    catalog := update_first (\<lambda>c. cid c = k)
                      (c\<lparr>enrolled_students := finsert sid (enrolled_students c)\<rparr>) (catalog sch)\<rparr>
      \<and> tr = snd (enroll k s)"
  using assms
  by (auto simp: enrollStudentInCourse_def enrollStudent_def split: option.splits if_splits prod.splits)

lemma enroll_False_D:
  assumes "enrollStudentInCourse sid k sch = (False, sch', tr)"
  shows "sch' = sch \<and> filter is_Notify tr = []"
  using assms
  by (auto simp: enrollStudentInCourse_def enrollStudent_def split: option.splits if_splits prod.splits)

lemma enroll_ids:
  assumes "enrollStudentInCourse sid k sch = (ok, sch', tr)"
  shows "map pid (students sch') = map pid (students sch)
     \<and> map cid (catalog sch') = map cid (catalog sch)"
proof (cases ok)
  case True
  with enroll_True_D [of sid k sch sch' tr] assms obtain s c where
    s: "find (\<lambda>s. pid s = sid) (students sch) = Some s"
    and c: "find (\<lambda>c. cid c = k) (catalog sch) = Some c"
    and sch': "sch' = sch\<lparr>students := update_first (\<lambda>s. pid s = sid) (fst (enroll k s)) (students sch),
                    catalog := update_first (\<lambda>c. cid c = k)
                      (c\<lparr>enrolled_students := finsert sid (enrolled_students c)\<rparr>) (catalog sch)\<rparr>"
    by auto
  show ?thesis
    by (simp add: sch' map_update_first [OF s] map_update_first [OF c] pid_enroll)
next
  case False
  with enroll_False_D [of sid k sch sch' tr] assms show ?thesis by simp
qed

subsection \<open>Ids that do not resolve\<close>

text \<open>
  Claim C5. When the student id is the id of no registered student, or the course id the
  id of no registered course, \<open>enrollStudentInCourse\<close> returns \<open>false\<close>, the registry
  is the one it was called on, and the only effect is the line
  \<open>Student or course not found!\<close> on \<open>cerr\<close>: no observer is notified.
\<close>

theorem enroll_not_found:
  assumes "student_id \<notin> pid ` set (students sch) \<or> course_id \<notin> cid ` set (catalog sch)"
  shows "enrollStudentInCourse student_id course_id sch
           = (False, sch, [Cerr ''Student or course not found!''])"
proof -
  from assms have "find (\<lambda>s. pid s = student_id) (students sch) = None
      \<or> find (\<lambda>c. cid c = course_id) (catalog sch) = None"
    by (auto simp: find_None_conv)
  then show ?thesis
    by (auto simp: enrollStudentInCourse_def split: option.splits)
qed

theorem enroll_not_found_witness:
  "''CS999'' \<notin> cid ` set (catalog school1)
   \<and> enrollStudentInCourse ''S001'' ''CS999'' school1
       = (False, school1, [Cerr ''Student or course not found!''])"
proof -
  have h: "''CS999'' \<notin> cid ` set (catalog school1)"
    by (simp add: school1_eq Course_def)
  from h enroll_not_found [OF disjI2, OF h] show ?thesis by (rule conjI)
qed

subsection \<open>A new enrollment\<close>

text \<open>
  Claim C6. Let the student id resolve to the student \<open>s\<close> and the course id to the course
  \<open>c\<close>: they are the first registered student and the first registered course with these
  ids. Let \<open>c\<close> have fewer enrolled students than its capacity, and let the course id
  not be a key of the enrollment map of \<open>s\<close>. Then \<open>enrollStudentInCourse\<close> returns
  \<open>true\<close>. The registry it leaves differs from the old one in the records of \<open>s\<close> and
  \<open>c\<close> only: \<open>c\<close> is replaced by \<open>c\<close> with the student id added to its enrolled set,
  and \<open>s\<close> by \<open>s\<close> with the course id added to its map with no score, every other key
  of the map being as before; the ids resolve to the two new records. The trace is one
  call of \<open>notify\<close> with the student id, the course id, no old score and the new score
  \<open>0.0\<close>, followed by the calls of \<open>update\<close> with the same event that it makes on the
  observers of \<open>s\<close>, in their order.
\<close>

theorem enroll_happy:
  assumes s: "find (\<lambda>s. pid s = student_id) (students sch) = Some s"
    and c: "find (\<lambda>c. cid c = course_id) (catalog sch) = Some c"
    and seat: "int (fcard (enrolled_students c)) < sint (capacity c)"
    and new: "course_id \<notin> fst ` set (courses s)"
  shows "\<exists>sch' s' c' tr. enrollStudentInCourse student_id course_id sch = (True, sch', tr)
      \<and> students sch' = update_first (\<lambda>s. pid s = student_id) s' (students sch)
      \<and> catalog sch' = update_first (\<lambda>c. cid c = course_id) c' (catalog sch)
      \<and> teachers sch' = teachers sch \<and> school_name sch' = school_name sch
      \<and> find (\<lambda>c. cid c = course_id) (catalog sch') = Some c'
      \<and> c' = c\<lparr>enrolled_students := finsert student_id (enrolled_students c)\<rparr>
      \<and> student_id |\<in>| enrolled_students c'
      \<and> find (\<lambda>s. pid s = student_id) (students sch') = Some s'
      \<and> s' = s\<lparr>courses := map_assign course_id None (courses s)\<rparr>
      \<and> map_of (courses s') = (map_of (courses s))(course_id \<mapsto> None)
      \<and> tr = Notify student_id course_id None (Finite 0)
               # map (\<lambda>ob. Update ob student_id course_id None (Finite 0)) (observers s)
      \<and> filter is_Notify tr = [Notify student_id course_id None (Finite 0)]"
proof -
  have pid: "pid s = student_id" and cid: "cid c = course_id"
    using find_Some_holds [OF s] find_Some_holds [OF c] by simp_all
  note test = free_seat_test [OF seat]
  let ?s' = "s\<lparr>courses := map_assign course_id None (courses s)\<rparr>"
  let ?c' = "c\<lparr>enrolled_students := finsert student_id (enrolled_students c)\<rparr>"
  let ?sch' = "sch\<lparr>students := update_first (\<lambda>s. pid s = student_id) ?s' (students sch),
                    catalog := update_first (\<lambda>c. cid c = course_id) ?c' (catalog sch)\<rparr>"
  let ?tr = "Notify student_id course_id None (Finite 0)
               # map (\<lambda>ob. Update ob student_id course_id None (Finite 0)) (observers s)"
  have call: "enrollStudentInCourse student_id course_id sch = (True, ?sch', ?tr)"
    using test by (simp add: enroll_resolved [OF s c] enroll_new [OF new] pid notify_def)
  have fc: "find (\<lambda>c. cid c = course_id) (catalog ?sch') = Some ?c'"
    using c by (simp add: find_update_first cid)
  have fs: "find (\<lambda>s. pid s = student_id) (students ?sch') = Some ?s'"
    using s by (simp add: find_update_first pid)
  have one: "filter is_Notify ?tr = [Notify student_id course_id None (Finite 0)]"
    using filter_notify [of "observers s" student_id course_id None "Finite 0"]
    by (simp add: notify_def)
  show ?thesis
  proof (intro exI conjI)
    show "enrollStudentInCourse student_id course_id sch = (True, ?sch', ?tr)"
      by (rule call)
    show "find (\<lambda>c. cid c = course_id) (catalog ?sch') = Some ?c'"
      by (rule fc)
    show "find (\<lambda>s. pid s = student_id) (students ?sch') = Some ?s'"
      by (rule fs)
    show "filter is_Notify ?tr = [Notify student_id course_id None (Finite 0)]"
      by (rule one)
    show "map_of (courses ?s') = (map_of (courses s))(course_id \<mapsto> None)"
      by (simp add: map_of_map_assign)
  qed simp_all
qed

theorem enroll_happy_witness:
  "find (\<lambda>s. pid s = ''S001'') (students school1)
     = Some (Student 0 ''S001'' ''Asha'' ''a@x.org'' addr0 FRESHMAN)
   \<and> find (\<lambda>c. cid c = ''CS101'') (catalog school1)
     = Some (Course ''CS101'' ''Programming Paradigms'' 4 1)
   \<and> int (fcard (enrolled_students (Course ''CS101'' ''Programming Paradigms'' 4 1)))
       < sint (capacity (Course ''CS101'' ''Programming Paradigms'' 4 1))
   \<and> ''CS101'' \<notin> fst ` set (courses (Student 0 ''S001'' ''Asha'' ''a@x.org'' addr0 FRESHMAN))
   \<and> (\<exists>sch' s' c'. enrollStudentInCourse ''S001'' ''CS101'' school1
           = (True, sch', [Notify ''S001'' ''CS101'' None (Finite 0)])
      \<and> find (\<lambda>c. cid c = ''CS101'') (catalog sch') = Some c'
      \<and> enrolled_students c' = {|''S001''|}
      \<and> find (\<lambda>s. pid s = ''S001'') (students sch') = Some s'
      \<and> courses s' = [(''CS101'', None)])"
proof -
  have h1: "find (\<lambda>s. pid s = ''S001'') (students school1)
     = Some (Student 0 ''S001'' ''Asha'' ''a@x.org'' addr0 FRESHMAN)"
    by (simp add: school1_eq Student_def)
  have h2: "find (\<lambda>c. cid c = ''CS101'') (catalog school1)
     = Some (Course ''CS101'' ''Programming Paradigms'' 4 1)"
    by (simp add: school1_eq Course_def)
  have h3: "int (fcard (enrolled_students (Course ''CS101'' ''Programming Paradigms'' 4 1)))
       < sint (capacity (Course ''CS101'' ''Programming Paradigms'' 4 1))"
    by (simp add: Course_def fcard_fempty)
  have h4: "''CS101'' \<notin> fst ` set (courses (Student 0 ''S001'' ''Asha'' ''a@x.org'' addr0 FRESHMAN))"
    by (simp add: Student_def)
  from enroll_happy [OF h1 h2 h3 h4]
  obtain sch' s' c' tr where
    call: "enrollStudentInCourse ''S001'' ''CS101'' school1 = (True, sch', tr)"
    and fc: "find (\<lambda>c. cid c = ''CS101'') (catalog sch') = Some c'"
    and c': "c' = (Course ''CS101'' ''Programming Paradigms'' 4 1)\<lparr>enrolled_students :=
        finsert ''S001'' (enrolled_students (Course ''CS101'' ''Programming Paradigms'' 4 1))\<rparr>"
    and fs: "find (\<lambda>s. pid s = ''S001'') (students sch') = Some s'"
    and s': "s' = (Student 0 ''S001'' ''Asha'' ''a@x.org'' addr0 FRESHMAN)\<lparr>courses :=
        map_assign ''CS101'' None (courses (Student 0 ''S001'' ''Asha'' ''a@x.org'' addr0 FRESHMAN))\<rparr>"
    and tr: "tr = Notify ''S001'' ''CS101'' None (Finite 0)
               # map (\<lambda>ob. Update ob ''S001'' ''CS101'' None (Finite 0))
                   (observers (Student 0 ''S001'' ''Asha'' ''a@x.org'' addr0 FRESHMAN))"
    by blast
  have c: "\<exists>sch' s' c'. enrollStudentInCourse ''S001'' ''CS101'' school1
           = (True, sch', [Notify ''S001'' ''CS101'' None (Finite 0)])
      \<and> find (\<lambda>c. cid c = ''CS101'') (catalog sch') = Some c'
      \<and> enrolled_students c' = {|''S001''|}
      \<and> find (\<lambda>s. pid s = ''S001'') (students sch') = Some s'
      \<and> courses s' = [(''CS101'', None)]"
  proof (intro exI conjI)
    show "enrollStudentInCourse ''S001'' ''CS101'' school1
           = (True, sch', [Notify ''S001'' ''CS101'' None (Finite 0)])"
      using call by (simp add: tr Student_def)
    show "find (\<lambda>c. cid c = ''CS101'') (catalog sch') = Some c'"
      by (rule fc)
    show "enrolled_students c' = {|''S001''|}"
      by (simp add: c' Course_def)
    show "find (\<lambda>s. pid s = ''S001'') (students sch') = Some s'"
      by (rule fs)
    show "courses s' = [(''CS101'', None)]"
      by (simp add: s' Student_def)
  qed
  show ?thesis
    by (intro conjI h1 h2 h3 h4 c)
qed

text \<open>
  Claim C6 as stated, for every registered student and course, fails where a student is
  not the first with its id. \<open>Asha\<close> and \<open>Bela\<close> are registered with the id \<open>S001\<close>,
  \<open>CS201\<close> has free seats and is not a key of the map of \<open>Bela\<close>. The call with the
  ids of \<open>Bela\<close> and \<open>CS201\<close> returns \<open>true\<close>, and the record of \<open>Bela\<close> in the
  registry it leaves is the old one, whose map has no key \<open>CS201\<close>: the enrollment and
  the event went to \<open>Asha\<close>.
\<close>

theorem shadowed_student_counterexample:
  "Student 1 ''S001'' ''Bela'' ''b@x.org'' addr0 SENIOR
       \<in> set (students (run ''U'' duplicate_registrations))
   \<and> Course ''CS201'' ''Network and Communication'' 4 30
       \<in> set (catalog (run ''U'' duplicate_registrations))
   \<and> int (fcard (enrolled_students (Course ''CS201'' ''Network and Communication'' 4 30)))
       < sint (capacity (Course ''CS201'' ''Network and Communication'' 4 30))
   \<and> cid (Course ''CS201'' ''Network and Communication'' 4 30)
       \<notin> fst ` set (courses (Student 1 ''S001'' ''Bela'' ''b@x.org'' addr0 SENIOR))
   \<and> enrollStudentInCourse (pid (Student 1 ''S001'' ''Bela'' ''b@x.org'' addr0 SENIOR))
         (cid (Course ''CS201'' ''Network and Communication'' 4 30))
         (run ''U'' duplicate_registrations)
       = (True, run ''U'' duplicate_ops, [Notify ''S001'' ''CS201'' None (Finite 0)])
   \<and> filter (\<lambda>s. pname s = ''Bela'') (students (run ''U'' duplicate_ops))
       = [Student 1 ''S001'' ''Bela'' ''b@x.org'' addr0 SENIOR]
   \<and> map_of (courses (Student 1 ''S001'' ''Bela'' ''b@x.org'' addr0 SENIOR)) ''CS201'' = None"
proof -
  have ids: "pid (Student 1 ''S001'' ''Bela'' ''b@x.org'' addr0 SENIOR) = ''S001''"
    "cid (Course ''CS201'' ''Network and Communication'' 4 30) = ''CS201''"
    by (simp_all add: Student_def Course_def)
  show ?thesis
    unfolding ids
    by (intro conjI enroll_duplicate_registrations)
       (simp_all add: run_duplicate_ops run_duplicate_registrations,
        simp_all add: Student_def Course_def fcard_fempty)
qed

subsection \<open>Enrolling the same pair again\<close>

text \<open>
  Claim C2, as the code has it. After \<open>enrollStudentInCourse\<close> has returned \<open>true\<close> for
  a student and a course, a second call for the same pair leaves the registry as the
  first call left it and calls \<open>notify\<close> on no bus, so the two calls notify once when the
  course id was not a key of the student's map before them, and not at all when it was.
  The second call returns what the capacity test of the course says after the first
  call: for a capacity that is not negative, \<open>true\<close> exactly when fewer students are
  enrolled than the capacity.
\<close>

theorem enroll_again:
  assumes s: "find (\<lambda>s. pid s = student_id) (students sch) = Some s"
    and first: "enrollStudentInCourse student_id course_id sch = (True, sch1, tr1)"
    and second: "enrollStudentInCourse student_id course_id sch1 = (ok, sch2, tr2)"
  shows "sch2 = sch1 \<and> filter is_Notify tr2 = []
     \<and> length (filter is_Notify (tr1 @ tr2))
         = (if course_id \<in> fst ` set (courses s) then 0 else 1)
     \<and> (\<exists>c1. find (\<lambda>c. cid c = course_id) (catalog sch1) = Some c1
           \<and> student_id |\<in>| enrolled_students c1
           \<and> ok = ((of_nat (fcard (enrolled_students c1)) :: size_t) < int_to_size_t (capacity c1))
           \<and> (0 \<le> sint (capacity c1) \<and> fcard (enrolled_students c1) < 2 ^ 64 \<longrightarrow>
                ok = (int (fcard (enrolled_students c1)) < sint (capacity c1))))"
proof -
  from enroll_True_D [OF first] s obtain c where
    c: "find (\<lambda>c. cid c = course_id) (catalog sch) = Some c"
    and sch1: "sch1 = sch\<lparr>students := update_first (\<lambda>s. pid s = student_id)
                      (fst (enroll course_id s)) (students sch),
                    catalog := update_first (\<lambda>c. cid c = course_id)
                      (c\<lparr>enrolled_students := finsert student_id (enrolled_students c)\<rparr>)
                      (catalog sch)\<rparr>"
    and tr1: "tr1 = snd (enroll course_id s)"
    by auto
  let ?s' = "fst (enroll course_id s)"
  let ?c' = "c\<lparr>enrolled_students := finsert student_id (enrolled_students c)\<rparr>"
  have pid: "pid s = student_id" and cid: "cid c = course_id"
    using find_Some_holds [OF s] find_Some_holds [OF c] by simp_all
  have s1: "find (\<lambda>s. pid s = student_id) (students sch1) = Some ?s'"
    using s by (simp add: sch1 find_update_first pid pid_enroll)
  have c1: "find (\<lambda>c. cid c = course_id) (catalog sch1) = Some ?c'"
    using c by (simp add: sch1 find_update_first cid)
  have again: "enroll course_id ?s' = (?s', [])"
    by (rule enroll_idem) (simp add: keys_enroll)
  have same: "?c'\<lparr>enrolled_students := finsert student_id (enrolled_students ?c')\<rparr> = ?c'"
    by simp
  have "sch1\<lparr>students := update_first (\<lambda>s. pid s = student_id) ?s' (students sch1),
             catalog := update_first (\<lambda>c. cid c = course_id) ?c' (catalog sch1)\<rparr> = sch1"
    by (simp add: update_first_same [OF s1] update_first_same [OF c1])
  with second have r: "sch2 = sch1" "filter is_Notify tr2 = []"
    "ok = ((of_nat (fcard (enrolled_students ?c')) :: size_t) < int_to_size_t (capacity ?c'))"
    unfolding enroll_resolved [OF s1 c1] again same by (auto split: if_splits)
  have "length (filter is_Notify tr1) = (if course_id \<in> fst ` set (courses s) then 0 else 1)"
    by (simp add: tr1 enroll_def filter_notify map_of_eq_None_iff)
  with r c1 show ?thesis
    by (simp add: size_lt_capacity)
qed

theorem enroll_again_witness:
  "find (\<lambda>s. pid s = ''S001'') (students school1)
     = Some (Student 0 ''S001'' ''Asha'' ''a@x.org'' addr0 FRESHMAN)
   \<and> enrollStudentInCourse ''S001'' ''CS201'' school1
     = (True, school2, [Notify ''S001'' ''CS201'' None (Finite 0)])
   \<and> enrollStudentInCourse ''S001'' ''CS201'' school2 = (True, school2, [])
   \<and> length (filter is_Notify ([Notify ''S001'' ''CS201'' None (Finite 0)] @ [])) = 1"
proof -
  have h1: "find (\<lambda>s. pid s = ''S001'') (students school1)
     = Some (Student 0 ''S001'' ''Asha'' ''a@x.org'' addr0 FRESHMAN)"
    by (simp add: school1_eq Student_def)
  from enroll_again [OF h1 enroll_school1_CS201 enroll_school2_CS201]
  have c: "length (filter is_Notify ([Notify ''S001'' ''CS201'' None (Finite 0)] @ [])) = 1"
    by (simp add: Student_def)
  show ?thesis
    by (intro conjI h1 enroll_school1_CS201 enroll_school2_CS201 c)
qed

text \<open>
  Claim C2 as stated fails where the first enrollment takes the last seat: \<open>CS101\<close> has
  the capacity 1, the first call returns \<open>true\<close>, and the second call for the same pair
  returns \<open>false\<close> with the line \<open>Course CS101 is full!\<close>.
\<close>

theorem enroll_again_full_counterexample:
  "enrollStudentInCourse ''S001'' ''CS101'' school1
     = (True, school3, [Notify ''S001'' ''CS101'' None (Finite 0)])
   \<and> enrollStudentInCourse ''S001'' ''CS101'' school3
     = (False, school3, [Cerr ''Course CS101 is full!''])"
  by (intro conjI enroll_school1_CS101 enroll_school3_CS101)

section \<open>Invariants of the registry\<close>

subsection \<open>Mutual consistency\<close>

lemma links_resolve_enroll:
  assumes "links_resolve sch" and "enrollStudentInCourse sid k sch = (ok, sch', tr)"
  shows "links_resolve sch'"
proof (cases ok)
  case False
  with enroll_False_D [of sid k sch sch' tr] assms show ?thesis by simp
next
  case True
  with enroll_True_D [of sid k sch sch' tr] assms obtain s c where
    s: "find (\<lambda>s. pid s = sid) (students sch) = Some s"
    and c: "find (\<lambda>c. cid c = k) (catalog sch) = Some c"
    and sch': "sch' = sch\<lparr>students := update_first (\<lambda>s. pid s = sid) (fst (enroll k s)) (students sch),
                    catalog := update_first (\<lambda>c. cid c = k)
                      (c\<lparr>enrolled_students := finsert sid (enrolled_students c)\<rparr>) (catalog sch)\<rparr>"
    by auto
  let ?s' = "fst (enroll k s)"
  let ?c' = "c\<lparr>enrolled_students := finsert sid (enrolled_students c)\<rparr>"
  have sin: "s \<in> set (students sch)" "pid s = sid" and cin: "c \<in> set (catalog sch)" "cid c = k"
    using find_Some_holds [OF s] find_Some_holds [OF c] by simp_all
  from enroll_ids [OF assms(2)]
  have ids: "pid ` set (students sch') = pid ` set (students sch)"
       "cid ` set (catalog sch') = cid ` set (catalog sch)"
    by (simp_all flip: set_map)
  have courses: "\<forall>x\<in>fset (enrolled_students d). x \<in> pid ` set (students sch)"
    if "d \<in> set (catalog sch')" for d
  proof -
    from that set_update_first_subset [of "\<lambda>c. cid c = k" ?c' "catalog sch"]
    have "d = ?c' \<or> d \<in> set (catalog sch)"
      by (auto simp: sch')
    then show ?thesis
      using assms(1) sin cin by (auto simp: links_resolve_def)
  qed
  have studs: "\<forall>j\<in>fst ` set (courses t). j \<in> cid ` set (catalog sch)"
    if "t \<in> set (students sch')" for t
  proof -
    from that set_update_first_subset [of "\<lambda>s. pid s = sid" ?s' "students sch"]
    have "t = ?s' \<or> t \<in> set (students sch)"
      by (auto simp: sch')
    then show ?thesis
    proof
      assume "t = ?s'"
      then have "fst ` set (courses t) = insert k (fst ` set (courses s))"
        by (simp add: keys_enroll)
      with assms(1) sin cin show ?thesis
        by (auto simp: links_resolve_def)
    next
      assume "t \<in> set (students sch)"
      with assms(1) show ?thesis
        by (auto simp: links_resolve_def)
    qed
  qed
  show ?thesis
    unfolding links_resolve_def ids using courses studs by blast
qed

lemma consistent_enroll:
  assumes con: "consistent sch" and uniq: "unique_ids sch"
    and call: "enrollStudentInCourse sid k sch = (ok, sch', tr)"
  shows "consistent sch'"
proof (cases ok)
  case False
  with enroll_False_D [of sid k sch sch' tr] assms show ?thesis by simp
next
  case True
  with enroll_True_D [of sid k sch sch' tr] call obtain s c where
    s: "find (\<lambda>s. pid s = sid) (students sch) = Some s"
    and c: "find (\<lambda>c. cid c = k) (catalog sch) = Some c"
    and sch': "sch' = sch\<lparr>students := update_first (\<lambda>s. pid s = sid) (fst (enroll k s)) (students sch),
                    catalog := update_first (\<lambda>c. cid c = k)
                      (c\<lparr>enrolled_students := finsert sid (enrolled_students c)\<rparr>) (catalog sch)\<rparr>"
    by auto
  let ?s' = "fst (enroll k s)"
  let ?c' = "c\<lparr>enrolled_students := finsert sid (enrolled_students c)\<rparr>"
  have sin: "s \<in> set (students sch)" "pid s = sid" and cin: "c \<in> set (catalog sch)" "cid c = k"
    using find_Some_holds [OF s] find_Some_holds [OF c] by simp_all
  have keys: "fst ` set (courses ?s') = insert k (fst ` set (courses s))"
    by (rule keys_enroll)
  have pid': "pid ?s' = sid"
    by (simp add: pid_enroll sin)
  show ?thesis
    unfolding consistent_def
  proof (intro ballI)
    fix t d assume t: "t \<in> set (students sch')" and d: "d \<in> set (catalog sch')"
    from t uniq s have tc: "t = ?s' \<or> (t \<in> set (students sch) \<and> pid t \<noteq> sid)"
      using update_first_distinct_cases [of pid "students sch" sid s t ?s']
      by (simp add: sch' unique_ids_def)
    from d uniq c have dc: "d = ?c' \<or> (d \<in> set (catalog sch) \<and> cid d \<noteq> k)"
      using update_first_distinct_cases [of cid "catalog sch" k c d ?c']
      by (simp add: sch' unique_ids_def)
    from tc dc show "(cid d \<in> fst ` set (courses t)) = (pid t |\<in>| enrolled_students d)"
    proof (elim disjE conjE)
      assume "t = ?s'" "d = ?c'"
      then show ?thesis by (simp add: keys cin pid')
    next
      assume "t = ?s'" and old: "d \<in> set (catalog sch)" "cid d \<noteq> k"
      with con sin show ?thesis
        by (auto simp: keys pid' consistent_def)
    next
      assume old: "t \<in> set (students sch)" "pid t \<noteq> sid" and "d = ?c'"
      with con cin show ?thesis
        by (auto simp: consistent_def)
    next
      assume "t \<in> set (students sch)" "d \<in> set (catalog sch)"
      with con show ?thesis
        by (simp add: consistent_def)
    qed
  qed
qed

lemma registry_inv_enroll:
  assumes "registry_inv sch" and "enrollStudentInCourse sid k sch = (ok, sch', tr)"
  shows "registry_inv sch'"
proof -
  from enroll_ids [OF assms(2)] have "unique_ids sch' = unique_ids sch"
    by (simp add: unique_ids_def)
  with assms show ?thesis
    by (auto simp: registry_inv_def intro: links_resolve_enroll consistent_enroll)
qed

lemma registry_inv_addStudent:
  assumes "registry_inv sch"
  shows "registry_inv (addStudent (Student now i n e a g) sch)"
proof -
  let ?sch' = "addStudent (Student now i n e a g) sch"
  from assms have lr: "links_resolve sch"
    by (simp add: registry_inv_def)
  then have lr': "links_resolve ?sch'"
    by (auto simp: links_resolve_def addStudent_def Student_def)
  have "consistent ?sch'" if u: "unique_ids ?sch'"
  proof -
    from u have old: "unique_ids sch" and fresh: "i \<notin> pid ` set (students sch)"
      by (auto simp: unique_ids_def addStudent_def Student_def)
    from assms old have con: "consistent sch"
      by (simp add: registry_inv_def)
    from lr fresh have "\<forall>c\<in>set (catalog sch). i |\<notin>| enrolled_students c"
      by (auto simp: links_resolve_def)
    with con show ?thesis
      by (auto simp: consistent_def addStudent_def Student_def)
  qed
  with lr' show ?thesis
    by (simp add: registry_inv_def)
qed

lemma registry_inv_addCourse:
  assumes "registry_inv sch"
  shows "registry_inv (addCourse (Course i n cr cap) sch)"
proof -
  let ?sch' = "addCourse (Course i n cr cap) sch"
  from assms have lr: "links_resolve sch"
    by (simp add: registry_inv_def)
  then have lr': "links_resolve ?sch'"
    by (auto simp: links_resolve_def addCourse_def Course_def)
  have "consistent ?sch'" if u: "unique_ids ?sch'"
  proof -
    from u have old: "unique_ids sch" and fresh: "i \<notin> cid ` set (catalog sch)"
      by (auto simp: unique_ids_def addCourse_def Course_def)
    from assms old have con: "consistent sch"
      by (simp add: registry_inv_def)
    from lr fresh have "\<forall>s\<in>set (students sch). i \<notin> fst ` set (courses s)"
      by (auto simp: links_resolve_def)
    with con show ?thesis
      by (auto simp: consistent_def addCourse_def Course_def)
  qed
  with lr' show ?thesis
    by (simp add: registry_inv_def)
qed

lemma registry_inv_addTeacher: "registry_inv sch \<Longrightarrow> registry_inv (addTeacher t sch)"
  by (simp add: registry_inv_def links_resolve_def unique_ids_def consistent_def addTeacher_def)

lemma registry_inv_apply_op: "registry_inv sch \<Longrightarrow> registry_inv (apply_op sch x)"
proof (cases x)
  case (Enroll sid k)
  assume "registry_inv sch"
  then show ?thesis
    using registry_inv_enroll [of sch sid k] Enroll
    by (cases "enrollStudentInCourse sid k sch") auto
qed (simp_all add: registry_inv_addStudent registry_inv_addCourse registry_inv_addTeacher)

lemma registry_inv_run: "registry_inv (run n ops)"
  unfolding run_def
proof (rule foldl_invariant)
  show "registry_inv (School n)"
    by (simp add: registry_inv_def links_resolve_def consistent_def School_def)
qed (rule registry_inv_apply_op)

text \<open>
  Claim C1, as the code has it. Take the registry after any sequence of registrations
  and enrollments that starts from the empty registry. If no two of its students have the
  same id and no two of its courses have the same id, then for every student \<open>s\<close> and
  every course \<open>c\<close> of the registry, the id of \<open>c\<close> is a key of the enrollment map of
  \<open>s\<close> exactly when the id of \<open>s\<close> is in the enrolled set of \<open>c\<close>.
\<close>

theorem enrollment_consistent:
  assumes "distinct (map pid (students (run n ops)))"
    and "distinct (map cid (catalog (run n ops)))"
    and "s \<in> set (students (run n ops))" and "c \<in> set (catalog (run n ops))"
  shows "(cid c \<in> fst ` set (courses s)) = (pid s |\<in>| enrolled_students c)"
  using registry_inv_run [of n ops] assms
  by (simp add: registry_inv_def unique_ids_def consistent_def)

theorem enrollment_consistent_witness:
  "distinct (map pid (students (run ''U'' (registrations1 @ [Enroll ''S001'' ''CS201'']))))
   \<and> distinct (map cid (catalog (run ''U'' (registrations1 @ [Enroll ''S001'' ''CS201'']))))
   \<and> (Student 0 ''S001'' ''Asha'' ''a@x.org'' addr0 FRESHMAN)\<lparr>courses := [(''CS201'', None)]\<rparr>
       \<in> set (students (run ''U'' (registrations1 @ [Enroll ''S001'' ''CS201''])))
   \<and> (Course ''CS201'' ''Network and Communication'' 4 30)\<lparr>enrolled_students := {|''S001''|}\<rparr>
       \<in> set (catalog (run ''U'' (registrations1 @ [Enroll ''S001'' ''CS201''])))
   \<and> (cid ((Course ''CS201'' ''Network and Communication'' 4 30)\<lparr>enrolled_students := {|''S001''|}\<rparr>)
         \<in> fst ` set (courses ((Student 0 ''S001'' ''Asha'' ''a@x.org'' addr0 FRESHMAN)\<lparr>courses := [(''CS201'', None)]\<rparr>)))
       = (pid ((Student 0 ''S001'' ''Asha'' ''a@x.org'' addr0 FRESHMAN)\<lparr>courses := [(''CS201'', None)]\<rparr>)
         |\<in>| enrolled_students ((Course ''CS201'' ''Network and Communication'' 4 30)\<lparr>enrolled_students := {|''S001''|}\<rparr>))"
proof -
  have h1: "distinct (map pid (students (run ''U'' (registrations1 @ [Enroll ''S001'' ''CS201'']))))"
    by (simp add: run_enroll_school1 school2_eq Student_def)
  have h2: "distinct (map cid (catalog (run ''U'' (registrations1 @ [Enroll ''S001'' ''CS201'']))))"
    by (simp add: run_enroll_school1 school2_eq Course_def)
  have h3: "(Student 0 ''S001'' ''Asha'' ''a@x.org'' addr0 FRESHMAN)\<lparr>courses := [(''CS201'', None)]\<rparr>
       \<in> set (students (run ''U'' (registrations1 @ [Enroll ''S001'' ''CS201''])))"
    by (simp add: run_enroll_school1 school2_eq)
  have h4: "(Course ''CS201'' ''Network and Communication'' 4 30)\<lparr>enrolled_students := {|''S001''|}\<rparr>
       \<in> set (catalog (run ''U'' (registrations1 @ [Enroll ''S001'' ''CS201''])))"
    by (simp add: run_enroll_school1 school2_eq)
  note c = enrollment_consistent [OF h1 h2 h3 h4]
  show ?thesis
    by (intro conjI h1 h2 h3 h4 c)
qed

text \<open>
  Claim C1 as stated fails where two students have the same id. After \<open>Asha\<close> and \<open>Bela\<close>
  are registered with the id \<open>S001\<close> and \<open>S001\<close> is enrolled in \<open>CS201\<close>, the id of
  \<open>Bela\<close> is in the enrolled set of \<open>CS201\<close>, and \<open>CS201\<close> is not a key of the
  enrollment map of \<open>Bela\<close>: the enrollment went to \<open>Asha\<close>, the first student with the id.
\<close>

theorem duplicate_id_counterexample:
  "Student 1 ''S001'' ''Bela'' ''b@x.org'' addr0 SENIOR \<in> set (students (run ''U'' duplicate_ops))
   \<and> (Course ''CS201'' ''Network and Communication'' 4 30)\<lparr>enrolled_students := {|''S001''|}\<rparr>
       \<in> set (catalog (run ''U'' duplicate_ops))
   \<and> pid (Student 1 ''S001'' ''Bela'' ''b@x.org'' addr0 SENIOR)
       |\<in>| enrolled_students ((Course ''CS201'' ''Network and Communication'' 4 30)\<lparr>enrolled_students := {|''S001''|}\<rparr>)
   \<and> cid ((Course ''CS201'' ''Network and Communication'' 4 30)\<lparr>enrolled_students := {|''S001''|}\<rparr>)
       \<notin> fst ` set (courses (Student 1 ''S001'' ''Bela'' ''b@x.org'' addr0 SENIOR))"
  by (simp add: run_duplicate_ops) (simp add: Student_def Course_def)

subsection \<open>Capacity\<close>

lemma within_capacity_enroll:
  assumes "within_capacity sch" and "enrollStudentInCourse sid k sch = (ok, sch', tr)"
  shows "within_capacity sch'"
proof (cases ok)
  case False
  with enroll_False_D [of sid k sch sch' tr] assms show ?thesis by simp
next
  case True
  with enroll_True_D [of sid k sch sch' tr] assms obtain s c where
    c: "find (\<lambda>c. cid c = k) (catalog sch) = Some c"
    and test: "(of_nat (fcard (enrolled_students c)) :: size_t) < int_to_size_t (capacity c)"
    and sch': "sch' = sch\<lparr>students := update_first (\<lambda>s. pid s = sid) (fst (enroll k s)) (students sch),
                    catalog := update_first (\<lambda>c. cid c = k)
                      (c\<lparr>enrolled_students := finsert sid (enrolled_students c)\<rparr>) (catalog sch)\<rparr>"
    by auto
  let ?c' = "c\<lparr>enrolled_students := finsert sid (enrolled_students c)\<rparr>"
  have cin: "c \<in> set (catalog sch)"
    using find_Some_holds [OF c] by simp
  have new: "int (fcard (enrolled_students ?c')) \<le> sint (capacity ?c')" if nn: "0 \<le> sint (capacity c)"
  proof -
    from assms(1) cin nn have le: "int (fcard (enrolled_students c)) \<le> sint (capacity c)"
      by (auto simp: within_capacity_def)
    have "sint (capacity c) < 2 ^ 31"
      using sint_cint_bounds [of "capacity c"] by simp
    with le have "int (fcard (enrolled_students c)) < 2 ^ 31"
      by linarith
    then have "fcard (enrolled_students c) < 2 ^ 64"
      by simp
    with test nn have "int (fcard (enrolled_students c)) < sint (capacity c)"
      by (simp add: size_lt_capacity)
    then show ?thesis
      by (simp add: fcard_finsert_if)
  qed
  show ?thesis
    unfolding within_capacity_def
  proof (intro ballI impI)
    fix d assume d: "d \<in> set (catalog sch')" and nn: "0 \<le> sint (capacity d)"
    from d set_update_first_subset [of "\<lambda>c. cid c = k" ?c' "catalog sch"]
    have "d = ?c' \<or> d \<in> set (catalog sch)"
      by (auto simp: sch')
    then show "int (fcard (enrolled_students d)) \<le> sint (capacity d)"
    proof
      assume "d = ?c'"
      with new nn show ?thesis by simp
    next
      assume "d \<in> set (catalog sch)"
      with assms(1) nn show ?thesis by (auto simp: within_capacity_def)
    qed
  qed
qed

lemma within_capacity_apply_op: "within_capacity sch \<Longrightarrow> within_capacity (apply_op sch x)"
proof (cases x)
  case (Enroll sid k)
  assume "within_capacity sch"
  then show ?thesis
    using within_capacity_enroll [of sch sid k] Enroll
    by (cases "enrollStudentInCourse sid k sch") auto
qed (auto simp: within_capacity_def addStudent_def addTeacher_def addCourse_def Course_def fcard_fempty)

lemma within_capacity_run: "within_capacity (run n ops)"
  unfolding run_def
  by (rule foldl_invariant) (simp_all add: within_capacity_def School_def within_capacity_apply_op [unfolded within_capacity_def])

lemma loop_fills:
  assumes "find (\<lambda>c. cid c = k) (catalog sch) = Some c"
    and "set sids \<subseteq> pid ` set (students sch)"
    and "distinct sids"
    and "set sids \<inter> fset (enrolled_students c) = {}"
    and "int (fcard (enrolled_students c) + length sids) \<le> sint (capacity c)"
    and "enrollments_loop (map (\<lambda>sid. (sid, k)) sids) sch = (oks, sch')"
  shows "oks = replicate (length sids) True
     \<and> map pid (students sch') = map pid (students sch)
     \<and> (\<exists>c'. find (\<lambda>c. cid c = k) (catalog sch') = Some c'
           \<and> capacity c' = capacity c
           \<and> enrolled_students c' = enrolled_students c |\<union>| fset_of_list sids
           \<and> fcard (enrolled_students c') = fcard (enrolled_students c) + length sids)"
  using assms
proof (induction sids arbitrary: sch c oks)
  case Nil
  then show ?case by auto
next
  case (Cons a sids)
  from Cons.prems(2) obtain s where s: "find (\<lambda>s. pid s = a) (students sch) = Some s"
    by (cases "find (\<lambda>s. pid s = a) (students sch)") (auto simp: find_None_conv)
  note c = Cons.prems(1)
  have cid: "cid c = k"
    using find_Some_holds [OF c] by simp
  let ?c1 = "c\<lparr>enrolled_students := finsert a (enrolled_students c)\<rparr>"
  let ?sch1 = "sch\<lparr>students := update_first (\<lambda>s. pid s = a) (fst (enroll k s)) (students sch),
                   catalog := update_first (\<lambda>c. cid c = k) ?c1 (catalog sch)\<rparr>"
  from Cons.prems(5) have seat: "int (fcard (enrolled_students c)) < sint (capacity c)"
    by simp
  note test = free_seat_test [OF seat]
  have step: "enrollStudentInCourse a k sch = (True, ?sch1, snd (enroll k s))"
    using test by (simp add: enroll_resolved [OF s c])
  from Cons.prems(6) obtain oks1 where
    rest: "enrollments_loop (map (\<lambda>sid. (sid, k)) sids) ?sch1 = (oks1, sch')"
    and oks: "oks = True # oks1"
    by (auto simp: step split: prod.splits)
  have ids1: "map pid (students ?sch1) = map pid (students sch)"
    using enroll_ids [OF step] by simp
  have c1: "find (\<lambda>c. cid c = k) (catalog ?sch1) = Some ?c1"
    using c by (simp add: find_update_first cid)
  from Cons.prems(4) have anew: "a |\<notin>| enrolled_students c"
    by auto
  then have card1: "fcard (enrolled_students ?c1) = Suc (fcard (enrolled_students c))"
    by (simp add: fcard_finsert_if)
  have p2: "set sids \<subseteq> pid ` set (students ?sch1)"
    using Cons.prems(2) ids1 by (metis list.set_map set_subset_Cons subset_trans)
  have p3: "distinct sids"
    using Cons.prems(3) by simp
  have p4: "set sids \<inter> fset (enrolled_students ?c1) = {}"
    using Cons.prems(3, 4) by auto
  have p5: "int (fcard (enrolled_students ?c1) + length sids) \<le> sint (capacity ?c1)"
    using Cons.prems(5) card1 by simp
  from Cons.IH [OF c1 p2 p3 p4 p5 rest] ids1 card1 oks show ?case
    by auto
qed


text \<open>
  Claim C8, as the code has it. After any sequence of registrations and enrollments that
  starts from the empty registry, every course with a capacity that is not negative has
  at most as many enrolled students as its capacity. And in any registry: when a course
  id resolves to a course \<open>c\<close>, and distinct registered students who are not in the
  enrolled set of \<open>c\<close> are enrolled one after the other until the enrolled set has as
  many students as the capacity, every one of these calls returns \<open>true\<close> and the
  students are the ones added to the enrolled set; the next call for the course and any
  registered student returns \<open>false\<close>, leaves the registry as it is and writes the line
  that the course is full.
\<close>

theorem capacity_respected:
  "(\<forall>d\<in>set (catalog (run n ops)). 0 \<le> sint (capacity d) \<longrightarrow>
       int (fcard (enrolled_students d)) \<le> sint (capacity d))
   \<and> (find (\<lambda>c. cid c = course_id) (catalog sch) = Some c
        \<and> set sids \<subseteq> pid ` set (students sch) \<and> student_id \<in> pid ` set (students sch)
        \<and> distinct sids \<and> set sids \<inter> fset (enrolled_students c) = {}
        \<and> int (fcard (enrolled_students c) + length sids) = sint (capacity c)
        \<and> enrollments_loop (map (\<lambda>sid. (sid, course_id)) sids) sch = (oks, sch')
      \<longrightarrow> oks = replicate (length sids) True
        \<and> map_option enrolled_students (find (\<lambda>c. cid c = course_id) (catalog sch'))
            = Some (enrolled_students c |\<union>| fset_of_list sids)
        \<and> enrollStudentInCourse student_id course_id sch'
            = (False, sch', [Cerr (''Course '' @ course_id @ '' is full!'')]))"
proof (intro conjI impI)
  show "\<forall>d\<in>set (catalog (run n ops)). 0 \<le> sint (capacity d) \<longrightarrow>
       int (fcard (enrolled_students d)) \<le> sint (capacity d)"
    using within_capacity_run [of n ops] by (simp add: within_capacity_def)
next
  assume a: "find (\<lambda>c. cid c = course_id) (catalog sch) = Some c
        \<and> set sids \<subseteq> pid ` set (students sch) \<and> student_id \<in> pid ` set (students sch)
        \<and> distinct sids \<and> set sids \<inter> fset (enrolled_students c) = {}
        \<and> int (fcard (enrolled_students c) + length sids) = sint (capacity c)
        \<and> enrollments_loop (map (\<lambda>sid. (sid, course_id)) sids) sch = (oks, sch')"
  then have c: "find (\<lambda>c. cid c = course_id) (catalog sch) = Some c"
    and registered: "set sids \<subseteq> pid ` set (students sch)" "student_id \<in> pid ` set (students sch)"
    and fresh: "distinct sids" "set sids \<inter> fset (enrolled_students c) = {}"
    and fill: "int (fcard (enrolled_students c) + length sids) = sint (capacity c)"
    and loop: "enrollments_loop (map (\<lambda>sid. (sid, course_id)) sids) sch = (oks, sch')"
    by simp_all
  from fill have le: "int (fcard (enrolled_students c) + length sids) \<le> sint (capacity c)"
    by simp
  from loop_fills [OF c registered(1) fresh le loop] obtain c' where
    oks: "oks = replicate (length sids) True"
    and ids: "map pid (students sch') = map pid (students sch)"
    and c': "find (\<lambda>c. cid c = course_id) (catalog sch') = Some c'"
    and cap: "capacity c' = capacity c"
    and enr: "enrolled_students c' = enrolled_students c |\<union>| fset_of_list sids"
    and card: "fcard (enrolled_students c') = fcard (enrolled_students c) + length sids"
    by auto
  from ids registered(2) have "student_id \<in> pid ` set (students sch')"
    by (metis list.set_map)
  then obtain s' where s': "find (\<lambda>s. pid s = student_id) (students sch') = Some s'"
    by (cases "find (\<lambda>s. pid s = student_id) (students sch')") (auto simp: find_None_conv)
  have full: "int (fcard (enrolled_students c')) = sint (capacity c')"
    using fill card cap by simp
  have full': "enrollStudentInCourse student_id course_id sch'
         = (False, sch', [Cerr (''Course '' @ course_id @ '' is full!'')])"
    using full_course_test [OF full] by (simp add: enroll_resolved [OF s' c'])
  show "oks = replicate (length sids) True"
    by (rule oks)
  show "map_option enrolled_students (find (\<lambda>c. cid c = course_id) (catalog sch'))
            = Some (enrolled_students c |\<union>| fset_of_list sids)"
    by (simp add: c' enr)
  show "enrollStudentInCourse student_id course_id sch'
            = (False, sch', [Cerr (''Course '' @ course_id @ '' is full!'')])"
    by (rule full')
qed

lemma loop_school1:
  "enrollments_loop (map (\<lambda>sid. (sid, ''CS101'')) [''S001'']) school1 = ([True], school3)"
  by (simp add: enroll_school1_CS101)

theorem capacity_respected_witness:
  "find (\<lambda>c. cid c = ''CS101'') (catalog school1) = Some (Course ''CS101'' ''Programming Paradigms'' 4 1)
   \<and> set [''S001''] \<subseteq> pid ` set (students school1)
   \<and> ''S002'' \<in> pid ` set (students school1)
   \<and> distinct [''S001'']
   \<and> set [''S001''] \<inter> fset (enrolled_students (Course ''CS101'' ''Programming Paradigms'' 4 1)) = {}
   \<and> int (fcard (enrolled_students (Course ''CS101'' ''Programming Paradigms'' 4 1)) + length [''S001''])
       = sint (capacity (Course ''CS101'' ''Programming Paradigms'' 4 1))
   \<and> enrollments_loop (map (\<lambda>sid. (sid, ''CS101'')) [''S001'']) school1 = ([True], school3)
   \<and> enrollStudentInCourse ''S002'' ''CS101'' school3
       = (False, school3, [Cerr (''Course '' @ ''CS101'' @ '' is full!'')])
   \<and> Course ''CS101'' ''Programming Paradigms'' 4 1 \<in> set (catalog (run ''U'' registrations1))
   \<and> 0 \<le> sint (capacity (Course ''CS101'' ''Programming Paradigms'' 4 1))
   \<and> int (fcard (enrolled_students (Course ''CS101'' ''Programming Paradigms'' 4 1)))
       \<le> sint (capacity (Course ''CS101'' ''Programming Paradigms'' 4 1))"
proof -
  have h2: "find (\<lambda>c. cid c = ''CS101'') (catalog school1)
      = Some (Course ''CS101'' ''Programming Paradigms'' 4 1)"
    by (simp add: school1_eq Course_def)
  have h3: "set [''S001''] \<subseteq> pid ` set (students school1)"
    by (simp add: school1_eq Student_def)
  have h4: "''S002'' \<in> pid ` set (students school1)"
    by (simp add: school1_eq Student_def)
  have h5: "distinct [''S001'']"
    by simp
  have h6: "set [''S001''] \<inter> fset (enrolled_students (Course ''CS101'' ''Programming Paradigms'' 4 1)) = {}"
    by (simp add: Course_def)
  have h7: "int (fcard (enrolled_students (Course ''CS101'' ''Programming Paradigms'' 4 1)) + length [''S001''])
       = sint (capacity (Course ''CS101'' ''Programming Paradigms'' 4 1))"
    by (simp add: Course_def fcard_fempty)
  note h8 = loop_school1
  have h9: "Course ''CS101'' ''Programming Paradigms'' 4 1 \<in> set (catalog (run ''U'' registrations1))"
    by (simp add: school1_eq flip: school1_def)
  have h10: "0 \<le> sint (capacity (Course ''CS101'' ''Programming Paradigms'' 4 1))"
    by (simp add: Course_def)
  note inst = capacity_respected [of "''U''" registrations1 "''CS101''" school1
      "Course ''CS101'' ''Programming Paradigms'' 4 1" "[''S001'']" "''S002''" "[True]" school3]
  note c1 = inst [THEN conjunct1, rule_format, OF h9 h10]
  note law = inst [THEN conjunct2, rule_format,
      OF conjI [OF h2 conjI [OF h3 conjI [OF h4 conjI [OF h5 conjI [OF h6 conjI [OF h7 h8]]]]]]]
  from law
  have c2: "enrollStudentInCourse ''S002'' ''CS101'' school3
       = (False, school3, [Cerr (''Course '' @ ''CS101'' @ '' is full!'')])"
    by (elim conjE)
  show ?thesis
    by (intro conjI h2 h3 h4 h5 h6 h7 h8 h9 h10 c1 c2)
qed

text \<open>
  Claim C8 as stated fails for a course with a negative capacity. The test
  \<open>enrolled_students.size() < capacity\<close> is made in \<open>size_t\<close>, where the capacity \<open>-1\<close>
  is \<open>2 ^ 64 - 1\<close>: the enrollment succeeds, and the course has one enrolled student,
  which is more than its capacity.
\<close>

theorem negative_capacity_counterexample:
  "(Course ''PD101'' ''Professional Development'' 3 (- 1))\<lparr>enrolled_students := {|''S001''|}\<rparr>
       \<in> set (catalog (run ''U'' negative_ops))
   \<and> \<not> int (fcard (enrolled_students
          ((Course ''PD101'' ''Professional Development'' 3 (- 1))\<lparr>enrolled_students := {|''S001''|}\<rparr>)))
       \<le> sint (capacity
          ((Course ''PD101'' ''Professional Development'' 3 (- 1))\<lparr>enrolled_students := {|''S001''|}\<rparr>))"
  by (simp add: run_negative_ops) (simp add: Course_def fcard_finsert_if fcard_fempty)

section \<open>Scores\<close>

subsection \<open>The range check of \<open>updateWAM\<close>\<close>

text \<open>
  For every \<open>float\<close> that is not a NaN, the check of the source rejects exactly the values
  outside \<open>[0, 100]\<close>, both infinities among them; 0 and 100 are accepted.
\<close>

lemma flt_range: "w \<noteq> NaN \<Longrightarrow> (flt w (Finite 0) \<or> fgt w (Finite 100)) = (\<not> in_score_range w)"
  by (cases w) (auto simp: fgt_def)

lemma updateWAM_rejects_numbers_out_of_range:
  "w \<noteq> NaN \<Longrightarrow> \<not> in_score_range w \<Longrightarrow>
     updateWAM course_id w s = (s, [Cerr ''Invalid WAM score. Must be between 0 and 100.''])"
  by (simp add: updateWAM_def flt_range)

lemma updateWAM_accepts_range:
  "in_score_range w \<Longrightarrow> map_of (courses s) course_id = Some old \<Longrightarrow>
     updateWAM course_id w s
       = (s\<lparr>courses := map_assign course_id (Some w) (courses s)\<rparr>,
          notify (observers s) (pid s) course_id old w)"
  by (cases w) (auto simp: updateWAM_def fgt_def)

lemma updateWAM_accepts_bounds:
  "fst (updateWAM ''CS101'' (Finite 0) student1) = student1\<lparr>courses := [(''CS101'', Some (Finite 0))]\<rparr>
   \<and> fst (updateWAM ''CS101'' (Finite 100) student1) = student1\<lparr>courses := [(''CS101'', Some (Finite 100))]\<rparr>"
  by (simp add: student1_eq updateWAM_def fgt_def)

text \<open>
  Claim C7 at a NaN. A NaN is a \<open>float\<close> outside the interval \<open>[0, 100]\<close>, but both
  comparisons of the range check are false for it, so \<open>updateWAM\<close> does not reject it:
  the stored score 80 of \<open>CS101\<close> is replaced by the NaN and the observer is notified.
\<close>

theorem updateWAM_stores_NaN:
  "\<not> in_score_range NaN
   \<and> updateWAM ''CS101'' NaN student1
       = (student1\<lparr>courses := [(''CS101'', Some NaN)]\<rparr>,
          [Notify ''S001'' ''CS101'' (Some (Finite 80)) NaN,
           Update 7 ''S001'' ''CS101'' (Some (Finite 80)) NaN])"
  by (simp add: student1_eq updateWAM_def fgt_def notify_def)

subsection \<open>What an accepted update changes\<close>

text \<open>
  Claim C10. For a score in \<open>[0, 100]\<close> and a course id that is a key of the student's
  enrollment map, \<open>updateWAM\<close> changes the slot of that course only: the key set and the
  slot of every other course are the same, and so are the identity fields, the grade
  level and the observer list.
\<close>

theorem updateWAM_frame:
  assumes "in_score_range w" and "course_id \<in> fst ` set (courses s)"
    and "updateWAM course_id w s = (s', tr)"
  shows "fst ` set (courses s') = fst ` set (courses s)
     \<and> (\<forall>k. k \<noteq> course_id \<longrightarrow> map_of (courses s') k = map_of (courses s) k)
     \<and> map_of (courses s') course_id = Some (Some w)
     \<and> pid s' = pid s \<and> pname s' = pname s \<and> email s' = email s \<and> addr s' = addr s
     \<and> created_at s' = created_at s \<and> grade_level s' = grade_level s
     \<and> observers s' = observers s"
proof -
  from assms(2) obtain old where old: "map_of (courses s) course_id = Some old"
    by (auto simp: dom_map_of_conv_image_fst [symmetric])
  from updateWAM_accepts_range [OF assms(1) old] assms(3)
  have s': "s' = s\<lparr>courses := map_assign course_id (Some w) (courses s)\<rparr>"
    by simp
  from assms(2) show ?thesis
    by (auto simp: s' keys_map_assign map_of_map_assign)
qed

theorem updateWAM_frame_witness:
  "in_score_range (Finite 100) \<and> ''CS101'' \<in> fst ` set (courses student1)
   \<and> updateWAM ''CS101'' (Finite 100) student1
       = (student1\<lparr>courses := [(''CS101'', Some (Finite 100))]\<rparr>,
          [Notify ''S001'' ''CS101'' (Some (Finite 80)) (Finite 100),
           Update 7 ''S001'' ''CS101'' (Some (Finite 80)) (Finite 100)])
   \<and> fst ` set (courses (student1\<lparr>courses := [(''CS101'', Some (Finite 100))]\<rparr>))
       = fst ` set (courses student1)
   \<and> map_of (courses (student1\<lparr>courses := [(''CS101'', Some (Finite 100))]\<rparr>)) ''CS101''
       = Some (Some (Finite 100))
   \<and> observers (student1\<lparr>courses := [(''CS101'', Some (Finite 100))]\<rparr>) = observers student1"
proof -
  have h1: "in_score_range (Finite 100)" by simp
  have h2: "''CS101'' \<in> fst ` set (courses student1)" by (simp add: student1_eq)
  have h3: "updateWAM ''CS101'' (Finite 100) student1
       = (student1\<lparr>courses := [(''CS101'', Some (Finite 100))]\<rparr>,
          [Notify ''S001'' ''CS101'' (Some (Finite 80)) (Finite 100),
           Update 7 ''S001'' ''CS101'' (Some (Finite 80)) (Finite 100)])"
    by (simp add: student1_eq updateWAM_def fgt_def notify_def)
  from updateWAM_frame [OF h1 h2 h3] h1 h2 h3 show ?thesis by blast
qed

subsection \<open>The overall WAM\<close>

text \<open>
  Without a present score the overall WAM is \<open>0.0\<close>, whatever the arithmetic does. With
  present scores it is the quotient, as the arithmetic unit computes it, of their sum,
  added up from \<open>0.0\<close> in the order of the course ids, by their number.
\<close>

lemma map_filter_no_score: "\<forall>x\<in>set m. snd x = None \<Longrightarrow> List.map_filter snd m = []"
  by (induction m) (auto simp: List.map_filter_simps)

lemma overallWAM_no_score:
  "\<forall>x\<in>set (courses s). snd x = None \<Longrightarrow> overallWAM u s = Finite 0"
  by (simp add: overallWAM_def map_filter_no_score)

lemma overallWAM_scores:
  "List.map_filter snd (courses s) = w # ws \<Longrightarrow>
     overallWAM u s = fdiv u (foldl (fadd u) (Finite 0) (w # ws)) (size_to_float u (Suc (length ws)))"
  by (simp add: overallWAM_def)

text \<open>Whole numbers below \<open>2 ^ 24\<close> are \<open>float\<close>s: rounding leaves them as they are.\<close>

lemma exponent_cases: "exponent a = - 126 \<or> (2 powi (exponent a) \<le> a \<and> exponent a \<le> 128)"
proof (cases "find (\<lambda>e. 2 powi e \<le> a) (rev [- 126..128])")
  case None
  then show ?thesis by (simp add: exponent_def)
next
  case (Some e)
  from find_Some_holds [OF Some] have le: "2 powi e \<le> a" and mem: "e \<in> set (rev [- 126..128])"
    by blast+
  from mem have "e \<in> {- 126..128}"
    unfolding set_rev set_upto .
  then have "e \<le> 128"
    by simp
  with le Some show ?thesis by (simp add: exponent_def)
qed

lemma round_half_even_of_int: "round_half_even (of_int k) = k"
  by (simp add: round_half_even_def)

lemma exponent_small:
  assumes "a < 2 ^ 24"
  shows "exponent a \<le> 23"
proof -
  from exponent_cases [of a] show ?thesis
  proof
    assume "exponent a = - 126" then show ?thesis by simp
  next
    assume "2 powi (exponent a) \<le> a \<and> exponent a \<le> 128"
    with assms have "(2::rat) powi (exponent a) < 2 powi 24"
      by simp
    then have "exponent a < 24"
      by (rule power_int_le_imp_less_exp [rotated]) simp_all
    then show ?thesis by simp
  qed
qed

lemma round32_whole:
  assumes pos: "0 < k" and small: "(of_int k :: rat) < 2 ^ 24"
  shows "round32 (of_int k) = Finite (of_int k)"
proof -
  define e where "e = exponent (of_int k)"
  define n where "n = nat (23 - e)"
  have e: "e \<le> 23"
    using exponent_small [OF small] by (simp add: e_def)
  then have "e - 23 = - int n"
    by (simp add: n_def)
  then have ulp: "(2::rat) powi (e - 23) = 1 / 2 ^ n"
    by (simp only: power_int_minus power_int_of_nat inverse_eq_divide)
  have quot: "(of_int k :: rat) / (1 / 2 ^ n) = of_int (k * 2 ^ n)"
    by simp
  have v: "of_int (round_half_even (of_int k / (1 / 2 ^ n))) * (1 / 2 ^ n) = (of_int k :: rat)"
    unfolding quot round_half_even_of_int by simp
  have big: "\<not> (2::rat) powi 128 \<le> of_int k"
    using small by (simp add: power_int_def)
  from pos have a: "\<bar>of_int k :: rat\<bar> = of_int k"
    by simp
  from pos have nz: "(of_int k :: rat) \<noteq> 0" and p: "(0::rat) < of_int k"
    by simp_all
  show ?thesis
    unfolding round32_def Let_def a e_def [symmetric] ulp v
    using nz p big by simp
qed

lemma round32_of_nat: "n < 2 ^ 24 \<Longrightarrow> round32 (of_nat n) = Finite (of_nat n)"
proof (cases "n = 0")
  case True
  then show ?thesis by (simp add: round32_def)
next
  case False
  assume "n < 2 ^ 24"
  then have "(of_int (int n) :: rat) < 2 ^ 24"
    by (metis of_int_of_nat_eq of_nat_less_iff of_nat_numeral of_nat_power)
  with False round32_whole [of "int n"] show ?thesis
    by simp
qed

lemma foldl_exact_sums:
  "exact_sums acc qs \<Longrightarrow> foldl ieee_add (Finite acc) (map Finite qs) = Finite (acc + sum_list qs)"
  by (induction qs arbitrary: acc) (simp_all add: add.assoc)

lemma overallWAM_ieee:
  assumes scores: "List.map_filter snd (courses s) = map Finite qs"
    and ne: "qs \<noteq> []"
    and len: "length qs < 2 ^ 24"
    and exact: "exact_sums 0 qs"
  shows "overallWAM ieee_fpu s = round32 (sum_list qs / of_nat (length qs))"
proof -
  have "foldl ieee_add (Finite 0) (map Finite qs) = Finite (sum_list qs)"
    using foldl_exact_sums [OF exact] by simp
  moreover have "round32 (of_nat (length qs)) = Finite (of_nat (length qs))"
    using len by (rule round32_of_nat)
  ultimately show ?thesis
    using ne by (simp add: overallWAM_def scores ieee_fpu_def)
qed

lemma exact_sums_whole:
  assumes "\<forall>q\<in>set qs. \<exists>k\<le>100. q = of_nat k"
    and "acc + 100 * length qs < 2 ^ 24"
  shows "exact_sums (of_nat acc) qs"
  using assms
proof (induction qs arbitrary: acc)
  case Nil
  then show ?case by simp
next
  case (Cons q qs)
  then obtain k where k: "k \<le> 100" "q = of_nat k"
    by auto
  from Cons.prems(2) k have small: "acc + k < 2 ^ 24" and rest: "(acc + k) + 100 * length qs < 2 ^ 24"
    by simp_all
  have "round32 (of_nat (acc + k)) = Finite (of_nat (acc + k))"
    using small by (rule round32_of_nat)
  moreover have "exact_sums (of_nat (acc + k)) qs"
    using Cons.prems(1) rest by (intro Cons.IH) simp_all
  ultimately show ?case
    by (simp add: k)
qed

text \<open>
  Claim C9. A student whose enrollment map is empty or has no-score slots only has the
  overall WAM \<open>0.0\<close>. Let the present scores, in the order of the course ids, be the
  finite numbers \<open>qs\<close>, at least one and fewer than \<open>2 ^ 24\<close>, and let no partial sum
  of them round: every partial sum is a \<open>float\<close>, as it is when the scores are whole
  numbers from 0 to 100 on at most 167772 courses. Then the overall WAM in \<open>float\<close>
  arithmetic is the arithmetic mean of \<open>qs\<close> rounded to the nearest \<open>float\<close>, and it is
  the arithmetic mean where the mean is a \<open>float\<close>.
\<close>

theorem overall_wam_mean:
  "((\<forall>x\<in>set (courses s). snd x = None) \<longrightarrow> overallWAM u s = Finite 0)
   \<and> (List.map_filter snd (courses s) = map Finite qs \<and> qs \<noteq> [] \<and> length qs < 2 ^ 24
        \<and> (exact_sums 0 qs \<or> (\<forall>q\<in>set qs. \<exists>k\<le>100. q = of_nat k) \<and> length qs \<le> 167772)
      \<longrightarrow> overallWAM ieee_fpu s = round32 (sum_list qs / of_nat (length qs))
          \<and> (round32 (sum_list qs / of_nat (length qs)) = Finite (sum_list qs / of_nat (length qs))
               \<longrightarrow> overallWAM ieee_fpu s = Finite (sum_list qs / of_nat (length qs))))"
proof (intro conjI impI)
  assume "\<forall>x\<in>set (courses s). snd x = None"
  then show "overallWAM u s = Finite 0"
    by (rule overallWAM_no_score)
next
  assume h: "List.map_filter snd (courses s) = map Finite qs \<and> qs \<noteq> [] \<and> length qs < 2 ^ 24
        \<and> (exact_sums 0 qs \<or> (\<forall>q\<in>set qs. \<exists>k\<le>100. q = of_nat k) \<and> length qs \<le> 167772)"
  have exact: "exact_sums 0 qs"
  proof -
    from h consider "exact_sums 0 qs" | "(\<forall>q\<in>set qs. \<exists>k\<le>100. q = of_nat k) \<and> length qs \<le> 167772"
      by blast
    then show ?thesis
    proof cases
      case 1
      then show ?thesis .
    next
      case 2
      then have "0 + 100 * length qs < 2 ^ 24"
        by simp
      with 2 exact_sums_whole [of qs 0] show ?thesis
        by simp
    qed
  qed
  from h exact show wam: "overallWAM ieee_fpu s = round32 (sum_list qs / of_nat (length qs))"
    by (intro overallWAM_ieee) simp_all
  assume "round32 (sum_list qs / of_nat (length qs)) = Finite (sum_list qs / of_nat (length qs))"
  with wam show "overallWAM ieee_fpu s = Finite (sum_list qs / of_nat (length qs))"
    by simp
qed

theorem overall_wam_mean_witness:
  "List.map_filter snd (courses student5) = map Finite [80, 90]
   \<and> exact_sums 0 [80, 90]
   \<and> round32 (sum_list [80, 90] / of_nat (length [80, 90 :: rat])) = Finite 85
   \<and> overallWAM ieee_fpu student5 = Finite 85
   \<and> courses (fst (enroll ''CS101'' (Student 0 ''S001'' ''Asha'' ''a@x.org'' addr0 FRESHMAN)))
       = [(''CS101'', None)]
   \<and> overallWAM ieee_fpu (fst (enroll ''CS101'' (Student 0 ''S001'' ''Asha'' ''a@x.org'' addr0 FRESHMAN)))
       = Finite 0"
proof -
  have h0: "courses (fst (enroll ''CS101'' (Student 0 ''S001'' ''Asha'' ''a@x.org'' addr0 FRESHMAN)))
       = [(''CS101'', None)]"
    by (simp add: Student_def enroll_def)
  have h0': "\<forall>x\<in>set (courses (fst (enroll ''CS101''
       (Student 0 ''S001'' ''Asha'' ''a@x.org'' addr0 FRESHMAN)))). snd x = None"
    unfolding h0 by simp
  note inst0 = overall_wam_mean [where u = ieee_fpu, THEN conjunct1, THEN mp, OF h0']
  have h1: "List.map_filter snd (courses student5) = map Finite [80, 90]"
    by (rule scores_student5)
  have h2: "[80, 90 :: rat] \<noteq> []"
    by simp
  have h3: "length [80, 90 :: rat] < 2 ^ 24"
    by simp
  have h4: "exact_sums 0 [80, 90]"
    by (rule exact_sums_student5)
  have h5: "round32 (sum_list [80, 90] / of_nat (length [80, 90 :: rat])) = Finite 85"
    by (rule round32_mean_student5)
  note inst1 = overall_wam_mean [where s = student5 and qs = "[80, 90]", THEN conjunct2, THEN mp,
      OF conjI [OF h1 conjI [OF h2 conjI [OF h3 disjI1 [OF h4]]]], THEN conjunct1]
  from inst1 h5 have c: "overallWAM ieee_fpu student5 = Finite 85"
    by simp
  show ?thesis
    by (intro conjI h1 h4 h5 c h0 inst0)
qed

text \<open>
  Claim C9 as stated fails where the arithmetic rounds. With the scores 70, 80 and 85 the
  overall WAM is the \<open>float\<close> \<open>10267307 / 131072\<close> (78.33333587...), which is not the
  mean \<open>235 / 3\<close>: no \<open>float\<close> is. With the scores \<open>262143 / 262144\<close>, 64 and
  \<open>262143 / 262144\<close> the first sum rounds, and the overall WAM is 22, neither the mean
  nor the \<open>float\<close> nearest to it: it is more than the distance \<open>2 ^ - 19\<close> between
  neighbouring \<open>float\<close>s away from the mean.
\<close>

theorem overall_wam_counterexample:
  "List.map_filter snd (courses student3) = [Finite 70, Finite 80, Finite 85]
   \<and> overallWAM ieee_fpu student3 = Finite (10267307 / 131072)
   \<and> (70 + 80 + 85) / 3 \<noteq> (10267307 / 131072 :: rat)
   \<and> List.map_filter snd (courses student4)
       = [Finite (262143 / 262144), Finite 64, Finite (262143 / 262144)]
   \<and> overallWAM ieee_fpu student4 = Finite 22
   \<and> round32 ((262143 / 262144 + 64 + 262143 / 262144) / 3) = Finite (11534335 / 524288)
   \<and> (1 / 524288 :: rat) < 22 - (262143 / 262144 + 64 + 262143 / 262144) / 3"
  by (intro conjI scores_student3 overallWAM_student3 scores_student4 overallWAM_student4
      round32_mean_student4) simp_all

section \<open>Top performers\<close>






end
